theory Spec2Isabelle
  imports Complex_Main "HOL-Library.AList"
begin

section \<open>Values of the Python runtime\<close>

text \<open>
  The two modules verified here are \<^verbatim>\<open>data_validation.py\<close> (class \<^verbatim>\<open>DataValidator\<close>) and
  \<^verbatim>\<open>statistical_analysis.py\<close> (class \<^verbatim>\<open>StatisticalAnalysis\<close>). Both work on pandas tables
  and return Python dictionaries.

  A float is a finite number, an infinity or NaN. The finite ones are read as reals:
  rounding is not modelled. What the model keeps of IEEE arithmetic is what the control
  flow of the code depends on: every comparison with NaN is false.
\<close>

datatype pyfloat = Fin real | PosInf | NegInf | NaN

fun fless :: "pyfloat \<Rightarrow> pyfloat \<Rightarrow> bool" where
  "fless (Fin a) (Fin b) = (a < b)"
| "fless (Fin a) PosInf = True"
| "fless NegInf (Fin b) = True"
| "fless NegInf PosInf = True"
| "fless _ _ = False"

text \<open>
  Exceptions are values. \<open>str_exn\<close> is Python's \<^verbatim>\<open>str(e)\<close>, which the handlers paste
  into their messages.
\<close>

datatype exn = KeyError string | ZeroDivisionError | LibraryError string

definition quoted :: "string \<Rightarrow> string" where
  "quoted s = [CHR 0x27] @ s @ [CHR 0x27]"

fun str_exn :: "exn \<Rightarrow> string" where
  "str_exn (KeyError k) = quoted k"
| "str_exn ZeroDivisionError = ''division by zero''"
| "str_exn (LibraryError m) = m"

definition andthen :: "exn + 'a \<Rightarrow> ('a \<Rightarrow> exn + 'b) \<Rightarrow> exn + 'b" where
  "andthen m f = (case m of Inl e \<Rightarrow> Inl e | Inr x \<Rightarrow> f x)"

text \<open>The true division of two Python ints raises on a zero divisor.\<close>

definition py_div :: "nat \<Rightarrow> nat \<Rightarrow> exn + real" where
  "py_div a b = (if b = 0 then Inl ZeroDivisionError else Inr (real a / real b))"

text \<open>
  The true division of a numpy integer by an int does not raise: a zero divisor gives
  NaN or an infinity (and a warning).
\<close>

definition np_div :: "nat \<Rightarrow> nat \<Rightarrow> pyfloat" where
  "np_div a b = (if b = 0 then (if a = 0 then NaN else PosInf) else Fin (real a / real b))"

definition times100 :: "pyfloat \<Rightarrow> pyfloat" where
  "times100 x = (case x of Fin r \<Rightarrow> Fin (r * 100) | other \<Rightarrow> other)"

text \<open>
  Dynamically typed values, as they occur in the result dictionaries. A dictionary is
  an association list in insertion order; \<^const>\<open>AList.update\<close> is the assignment
  \<^verbatim>\<open>d[k] = v\<close>.
\<close>

datatype pyval =
    VNone
  | VBool bool
  | VInt int
  | VFloat pyfloat
  | VStr string
  | VList "pyval list"
  | VTuple "pyval list"
  | VDict "(pyval \<times> pyval) list"

type_synonym pydict = "(string \<times> pyval) list"

definition has_key :: "pydict \<Rightarrow> string \<Rightarrow> bool" where
  "has_key d k = (map_of d k \<noteq> None)"

section \<open>Tables\<close>

text \<open>
  A cell of a table holds a number or a text; a missing cell is \<open>None\<close>. A column has
  a name, a dtype and its cells; a table has a row count and its columns in order.
  In a well-formed table every column has one cell per row. The names of the columns
  are taken to be distinct, so that \<^verbatim>\<open>df[name]\<close> is one column.
\<close>

datatype cell = Num real | Str string

datatype dtype = Int64 | Float64 | BoolT | ObjectT | Datetime64

type_synonym series = "cell option list"

record column =
  cname :: string
  cdtype :: dtype
  cvalues :: series

record table =
  nrows :: nat
  columns :: "column list"

definition wf_table :: "table \<Rightarrow> bool" where
  "wf_table df = list_all (\<lambda>c. length (cvalues c) = nrows df) (columns df)"

definition df_empty :: "table \<Rightarrow> bool" where
  "df_empty df = (nrows df = 0 \<or> columns df = [])"

definition dropna :: "series \<Rightarrow> cell list" where
  "dropna xs = List.map_filter id xs"

text \<open>\<^verbatim>\<open>df[name]\<close>: the first column of that name, or a KeyError.\<close>

definition getcol :: "table \<Rightarrow> string \<Rightarrow> exn + column" where
  "getcol df name =
     (case find (\<lambda>c. cname c = name) (columns df) of
        None \<Rightarrow> Inl (KeyError name)
      | Some c \<Rightarrow> Inr c)"

section \<open>The validator\<close>

text \<open>
  The texts of the findings are Spanish, with accents and pictographs. The characters of
  HOL are bytes, so the model writes the texts in ASCII, without accents and pictographs.
  The dictionary key \<^verbatim>\<open>type\<close> of a finding is the field \<open>ftype\<close>.
\<close>

record finding =
  ftype :: string
  severity :: string
  message :: string
  suggestion :: string

record validator =
  validation_results :: pydict
  error_messages :: "finding list"
  warnings :: "finding list"
  suggestions :: "finding list"

definition new_validator :: validator where
  "new_validator = \<lparr>validation_results = [], error_messages = [], warnings = [], suggestions = []\<rparr>"

subsection \<open>Text helpers\<close>

text \<open>
  Texts are taken to be ASCII. \<open>is_space\<close> is Python's \<^verbatim>\<open>str.isspace\<close> on ASCII, which
  \<^verbatim>\<open>strip\<close>, \<^verbatim>\<open>float\<close> and the pattern \<^verbatim>\<open>\s\<close> share; \<open>is_word\<close> is the pattern \<^verbatim>\<open>\w\<close>.
\<close>

definition is_digit :: "char \<Rightarrow> bool" where
  "is_digit c = (c \<in> set ''0123456789'')"

definition is_upper :: "char \<Rightarrow> bool" where
  "is_upper c = (c \<in> set ''ABCDEFGHIJKLMNOPQRSTUVWXYZ'')"

definition is_lower :: "char \<Rightarrow> bool" where
  "is_lower c = (c \<in> set ''abcdefghijklmnopqrstuvwxyz'')"

definition is_space :: "char \<Rightarrow> bool" where
  "is_space c = (c \<in> set [CHR '' '', CHR 0x09, CHR 0x0A, CHR 0x0B, CHR 0x0C, CHR 0x0D,
                             CHR 0x1C, CHR 0x1D, CHR 0x1E, CHR 0x1F])"

definition is_word :: "char \<Rightarrow> bool" where
  "is_word c = (is_digit c \<or> is_upper c \<or> is_lower c \<or> c = CHR ''_'')"

definition py_strip :: "string \<Rightarrow> string" where
  "py_strip s = rev (dropWhile is_space (rev (dropWhile is_space s)))"

definition replace_char :: "char \<Rightarrow> char \<Rightarrow> string \<Rightarrow> string" where
  "replace_char a b s = map (\<lambda>c. if c = a then b else c) s"

definition remove_char :: "char \<Rightarrow> string \<Rightarrow> string" where
  "remove_char a s = filter (\<lambda>c. c \<noteq> a) s"

definition to_lower :: "char \<Rightarrow> char" where
  "to_lower c =
     (case map_of (zip ''ABCDEFGHIJKLMNOPQRSTUVWXYZ'' ''abcdefghijklmnopqrstuvwxyz'') c of
        Some l \<Rightarrow> l
      | None \<Rightarrow> c)"

fun show_nat :: "nat \<Rightarrow> string" where
  "show_nat n =
     (if n < 10 then [''0123456789'' ! n]
      else show_nat (n div 10) @ [''0123456789'' ! (n mod 10)])"

declare show_nat.simps [simp del]

subsection \<open>Python's \<^verbatim>\<open>float\<close> on a text\<close>

text \<open>
  \<^verbatim>\<open>float(s)\<close> raises unless \<open>s\<close>, with the white space around it removed, is an optional
  sign followed by \<^verbatim>\<open>inf\<close>, \<^verbatim>\<open>infinity\<close> or \<^verbatim>\<open>nan\<close> in any case, or by a number: digits with
  single underscores between them, an optional point, an optional exponent.
  \<open>digits_tail\<close> reads on after a first digit and gives what is left of the text.
\<close>

fun digits_tail :: "string \<Rightarrow> string" where
  "digits_tail (c # d # cs) =
     (if is_digit c then digits_tail (d # cs)
      else if c = CHR ''_'' \<and> is_digit d then digits_tail cs
      else c # d # cs)"
| "digits_tail [c] = (if is_digit c then [] else [c])"
| "digits_tail [] = []"

definition digitpart :: "string \<Rightarrow> string option" where
  "digitpart s =
     (case s of
        [] \<Rightarrow> None
      | c # cs \<Rightarrow> if is_digit c then Some (digits_tail cs) else None)"

definition drop_sign :: "string \<Rightarrow> string" where
  "drop_sign s = (case s of [] \<Rightarrow> [] | c # r \<Rightarrow> if c \<in> set ''+-'' then r else s)"

definition number_rest :: "string \<Rightarrow> string option" where
  "number_rest s =
     (case digitpart s of
        Some r \<Rightarrow>
          (case r of
             [] \<Rightarrow> Some []
           | c # r' \<Rightarrow>
               if c = CHR ''.'' then (case digitpart r' of Some r'' \<Rightarrow> Some r'' | None \<Rightarrow> Some r')
               else Some r)
      | None \<Rightarrow>
          (case s of
             [] \<Rightarrow> None
           | c # r \<Rightarrow> if c = CHR ''.'' then digitpart r else None))"

definition exponent_rest :: "string \<Rightarrow> string option" where
  "exponent_rest s =
     (case s of
        [] \<Rightarrow> Some []
      | c # r \<Rightarrow> if c \<in> set ''eE'' then digitpart (drop_sign r) else Some s)"

definition floatnumber_ok :: "string \<Rightarrow> bool" where
  "floatnumber_ok s =
     (case number_rest s of
        None \<Rightarrow> False
      | Some r \<Rightarrow> exponent_rest r = Some [])"

definition py_float_ok :: "string \<Rightarrow> bool" where
  "py_float_ok s =
     (let t = drop_sign (py_strip s)
      in map to_lower t \<in> set [''inf'', ''infinity'', ''nan''] \<or> floatnumber_ok t)"

subsection \<open>Date patterns\<close>

text \<open>
  \<^verbatim>\<open>re.match\<close> anchors a pattern at the start of the text only. In a pattern of the model
  the letter \<open>d\<close> stands for \<^verbatim>\<open>\d\<close>; every other character stands for itself.
\<close>

fun match_prefix :: "string \<Rightarrow> string \<Rightarrow> bool" where
  "match_prefix [] s = True"
| "match_prefix (p # ps) [] = False"
| "match_prefix (p # ps) (c # cs) =
     ((if p = CHR ''d'' then is_digit c else c = p) \<and> match_prefix ps cs)"

definition date_patterns :: "string list" where
  "date_patterns = [''dddd-dd-dd'', ''dd/dd/dddd'', ''dd-dd-dddd'', ''dddd/dd/dd'']"

definition looks_like_date :: "string \<Rightarrow> bool" where
  "looks_like_date v = list_ex (\<lambda>pattern. match_prefix pattern v) date_patterns"

subsection \<open>Services of the runtime\<close>

text \<open>
  What the validator takes from Python and pandas without the model computing it: the
  memory a table occupies, the text of a number, and the number formats of the messages
  (\<^verbatim>\<open>{:,}\<close>, \<^verbatim>\<open>{:.1f}\<close>, \<^verbatim>\<open>{:.1%}\<close>). They are parameters; no property below depends on them.
\<close>

record runtime =
  memory_usage :: "table \<Rightarrow> nat"
  num_str :: "real \<Rightarrow> string"
  fmt_thousands :: "nat \<Rightarrow> string"
  fmt_f1 :: "pyfloat \<Rightarrow> string"
  fmt_pct1 :: "real \<Rightarrow> string"

definition cell_str :: "runtime \<Rightarrow> cell \<Rightarrow> string" where
  "cell_str rt v = (case v of Str s \<Rightarrow> s | Num r \<Rightarrow> num_str rt r)"

definition cell_val :: "cell option \<Rightarrow> pyval" where
  "cell_val v = (case v of None \<Rightarrow> VFloat NaN | Some (Num r) \<Rightarrow> VFloat (Fin r) | Some (Str s) \<Rightarrow> VStr s)"

definition dtype_name :: "dtype \<Rightarrow> string" where
  "dtype_name d =
     (case d of Int64 \<Rightarrow> ''int64'' | Float64 \<Rightarrow> ''float64'' | BoolT \<Rightarrow> ''bool''
      | ObjectT \<Rightarrow> ''object'' | Datetime64 \<Rightarrow> ''datetime64[ns]'')"

definition nunique :: "series \<Rightarrow> nat" where
  "nunique xs = length (remdups (dropna xs))"

definition mk_finding :: "string \<Rightarrow> string \<Rightarrow> string \<Rightarrow> string \<Rightarrow> finding" where
  "mk_finding t sev msg sug = \<lparr>ftype = t, severity = sev, message = msg, suggestion = sug\<rparr>"

subsection \<open>Check 1: basic structure\<close>

definition validate_basic_structure :: "runtime \<Rightarrow> table \<Rightarrow> string \<Rightarrow> validator \<Rightarrow> validator" where
  "validate_basic_structure rt df file_name self =
     (if df_empty df then
        self\<lparr>error_messages := error_messages self @
          [mk_finding ''estructura'' ''error''
             (''El archivo '' @ quoted file_name @ '' esta vacio'')
             ''Verifica que el archivo contenga datos validos'']\<rparr>
      else
        let self1 =
              (if nrows df < 2 then
                 self\<lparr>warnings := warnings self @
                   [mk_finding ''estructura'' ''warning''
                      (''El archivo '' @ quoted file_name @ '' tiene muy pocas filas ('' @
                         show_nat (nrows df) @ '')'')
                      ''Se recomiendan al menos 10 filas para analisis estadisticos'']\<rparr>
               else self)
        in
        if length (columns df) < 1 then
          self1\<lparr>error_messages := error_messages self1 @
            [mk_finding ''estructura'' ''error''
               (''El archivo '' @ quoted file_name @ '' no tiene columnas'')
               ''Verifica el formato del archivo'']\<rparr>
        else
          let self2 = self1\<lparr>validation_results :=
                AList.update ''basic_info''
                  (VDict [(VStr ''rows'', VInt (int (nrows df))),
                          (VStr ''columns'', VInt (int (length (columns df)))),
                          (VStr ''size_mb'', VFloat (Fin (real (memory_usage rt df) / 1024 ^ 2))),
                          (VStr ''is_large'', VBool (nrows df > 100000))])
                  (validation_results self1)\<rparr>
          in
          if nrows df > 100000 then
            self2\<lparr>warnings := warnings self2 @
              [mk_finding ''rendimiento'' ''warning''
                 (''Archivo grande detectado ('' @ fmt_thousands rt (nrows df) @ '' filas)'')
                 ''El procesamiento puede ser lento. Considera usar una muestra para pruebas iniciales'']\<rparr>
          else self2)"

subsection \<open>Check 2: data types\<close>

text \<open>
  A column that the loop finds problematic is recorded with its issue and ratio; the
  suggestions are written only after the loop has gone through every column.
\<close>

datatype problem = NumericAsText string real | DateAsText string real

definition numeric_convertible :: "runtime \<Rightarrow> cell list \<Rightarrow> nat" where
  "numeric_convertible rt sample =
     length (filter (\<lambda>v. py_float_ok (remove_char (CHR '' '') (replace_char (CHR '','') (CHR ''.'') (cell_str rt v)))) sample)"

definition numeric_problems :: "runtime \<Rightarrow> column \<Rightarrow> exn + problem list" where
  "numeric_problems rt c =
     (if cdtype c = ObjectT then
        let non_null_values = dropna (cvalues c) in
        if length non_null_values > 0 then
          andthen (py_div (numeric_convertible rt (take 100 non_null_values)) (length (take 100 non_null_values)))
            (\<lambda>ratio. Inr (if ratio > 0.8 then [NumericAsText (cname c) ratio] else []))
        else Inr []
      else Inr [])"

text \<open>
  The share of the sampled values of a column that parse as a number: the quotient
  that the check compares with 0.8 and reports in its suggestion.
\<close>

definition convertible_ratio :: "runtime \<Rightarrow> column \<Rightarrow> real" where
  "convertible_ratio rt c =
     real (numeric_convertible rt (take 100 (dropna (cvalues c)))) / real (length (take 100 (dropna (cvalues c))))"

definition date_problems :: "runtime \<Rightarrow> column \<Rightarrow> exn + problem list" where
  "date_problems rt c =
     (if cdtype c = ObjectT then
        let sample_values = take 10 (dropna (cvalues c));
            date_like_count = length (filter (\<lambda>v. looks_like_date (cell_str rt v)) sample_values)
        in
        andthen (py_div date_like_count (length sample_values))
          (\<lambda>ratio. Inr (if ratio > 0.5 \<and> length sample_values > 0 then [DateAsText (cname c) ratio] else []))
      else Inr [])"

definition type_info_entry :: "column \<Rightarrow> pyval" where
  "type_info_entry c =
     VDict [(VStr ''dtype'', VStr (dtype_name (cdtype c))),
            (VStr ''non_null_count'', VInt (int (length (dropna (cvalues c))))),
            (VStr ''unique_count'', VInt (int (nunique (cvalues c))))]"

fun data_types_loop :: "runtime \<Rightarrow> column list \<Rightarrow> pydict \<Rightarrow> problem list \<Rightarrow> exn + pydict \<times> problem list" where
  "data_types_loop rt [] type_info problematic_columns = Inr (type_info, problematic_columns)"
| "data_types_loop rt (c # cs) type_info problematic_columns =
     andthen (numeric_problems rt c) (\<lambda>ps1.
     andthen (date_problems rt c) (\<lambda>ps2.
     data_types_loop rt cs (AList.update (cname c) (type_info_entry c) type_info)
       (problematic_columns @ ps1 @ ps2)))"

definition problem_suggestion :: "runtime \<Rightarrow> problem \<Rightarrow> finding" where
  "problem_suggestion rt prob_col =
     (case prob_col of
        NumericAsText col ratio \<Rightarrow>
          mk_finding ''tipo_datos'' ''suggestion''
            (''La columna '' @ quoted col @ '' parece contener numeros como texto'')
            (''Considera convertir a numerico. '' @ fmt_pct1 rt ratio @ '' de los valores son convertibles'')
      | DateAsText col ratio \<Rightarrow>
          mk_finding ''tipo_datos'' ''suggestion''
            (''La columna '' @ quoted col @ '' parece contener fechas como texto'')
            ''Considera convertir a tipo datetime para analisis temporales'')"

definition data_types_error :: "exn \<Rightarrow> finding" where
  "data_types_error e =
     mk_finding ''tipos_datos'' ''error''
       (''Error al validar tipos de datos: '' @ str_exn e)
       ''Revisa el formato de los datos en el archivo''"

definition validate_data_types :: "runtime \<Rightarrow> table \<Rightarrow> validator \<Rightarrow> validator" where
  "validate_data_types rt df self =
     (case data_types_loop rt (columns df) [] [] of
        Inr (type_info, problematic_columns) \<Rightarrow>
          self\<lparr>validation_results :=
                 AList.update ''data_types'' (VDict (map (\<lambda>(k, v). (VStr k, v)) type_info))
                   (validation_results self),
               suggestions := suggestions self @ map (problem_suggestion rt) problematic_columns\<rparr>
      | Inl e \<Rightarrow>
          self\<lparr>error_messages := error_messages self @ [data_types_error e]\<rparr>)"

subsection \<open>Check 3: missing values\<close>

definition missing_count :: "column \<Rightarrow> nat" where
  "missing_count c = length (filter (\<lambda>v. v = None) (cvalues c))"

definition missing_pct :: "table \<Rightarrow> column \<Rightarrow> pyfloat" where
  "missing_pct df c = times100 (np_div (missing_count c) (nrows df))"

definition missing_info_entry :: "table \<Rightarrow> column \<Rightarrow> string \<times> pyval" where
  "missing_info_entry df c =
     (cname c,
      VDict [(VStr ''missing_count'', VInt (int (missing_count c))),
             (VStr ''missing_percentage'', VFloat (missing_pct df c)),
             (VStr ''has_missing'', VBool (missing_count c > 0))])"

text \<open>
  The loop over the columns: the entry of every column, the columns above 50 percent in
  \<open>critical_missing\<close>, and a warning at once for a column above 20 percent that is not
  above 50.
\<close>

fun missing_loop :: "runtime \<Rightarrow> table \<Rightarrow> column list \<Rightarrow> pydict \<times> column list \<times> finding list
    \<Rightarrow> pydict \<times> column list \<times> finding list" where
  "missing_loop rt df [] acc = acc"
| "missing_loop rt df (c # cs) (missing_info, critical_missing, warns) =
     missing_loop rt df cs
       (AList.update (cname c) (snd (missing_info_entry df c)) missing_info,
        (if fless (Fin 50) (missing_pct df c) then critical_missing @ [c] else critical_missing),
        (if fless (Fin 50) (missing_pct df c) then warns
         else if fless (Fin 20) (missing_pct df c) then
           warns @ [mk_finding ''valores_faltantes'' ''warning''
                      (''La columna '' @ quoted (cname c) @ '' tiene '' @ fmt_f1 rt (missing_pct df c) @
                         ''% de valores faltantes'')
                      ''Considera estrategias de imputacion o eliminacion de esta columna'']
         else warns))"

definition dict_sum :: "pydict \<Rightarrow> string \<Rightarrow> int" where
  "dict_sum d k =
     sum_list (map (\<lambda>(_, info). case info of
                      VDict kv \<Rightarrow> (case map_of kv (VStr k) of Some (VInt n) \<Rightarrow> n | _ \<Rightarrow> 0)
                    | _ \<Rightarrow> 0) d)"

definition validate_missing_values :: "runtime \<Rightarrow> table \<Rightarrow> validator \<Rightarrow> validator" where
  "validate_missing_values rt df self =
     (case missing_loop rt df (columns df) ([], [], []) of
        (missing_info, critical_missing, warns) \<Rightarrow>
          let total_missing = dict_sum missing_info ''missing_count'' in
          self\<lparr>validation_results :=
                 AList.update ''missing_values'' (VDict (map (\<lambda>(k, v). (VStr k, v)) missing_info))
                   (validation_results self),
               warnings := warnings self @ warns,
               error_messages := error_messages self @
                 map (\<lambda>crit. mk_finding ''valores_faltantes'' ''error''
                        (''La columna '' @ quoted (cname crit) @ '' tiene '' @ fmt_f1 rt (missing_pct df crit) @
                           ''% de valores faltantes'')
                        ''Esta columna no es util para analisis. Considera eliminarla'')
                   critical_missing,
               suggestions := suggestions self @
                 (if total_missing > 0 then
                    [mk_finding ''valores_faltantes'' ''suggestion''
                       (''Se detectaron '' @ show_nat (nat total_missing) @ '' valores faltantes en total'')
                       ''Revisa las estrategias de manejo de valores faltantes antes del analisis'']
                  else [])\<rparr>)"

subsection \<open>Check 4: duplicates\<close>

text \<open>
  A row is duplicated when an earlier row has the same cells, missing ones included.
  On a table without rows or without columns pandas reports no duplicate.
\<close>

definition cell_at :: "column \<Rightarrow> nat \<Rightarrow> cell option" where
  "cell_at c i = (if i < length (cvalues c) then cvalues c ! i else None)"

definition df_rows :: "table \<Rightarrow> cell option list list" where
  "df_rows df = map (\<lambda>i. map (\<lambda>c. cell_at c i) (columns df)) [0..<nrows df]"

fun count_duplicated :: "'a list \<Rightarrow> 'a list \<Rightarrow> nat" where
  "count_duplicated seen [] = 0"
| "count_duplicated seen (r # rs) =
     (if r \<in> set seen then Suc (count_duplicated seen rs) else count_duplicated (r # seen) rs)"

definition duplicate_count :: "table \<Rightarrow> nat" where
  "duplicate_count df = (if df_empty df then 0 else count_duplicated [] (df_rows df))"

definition validate_duplicates :: "runtime \<Rightarrow> table \<Rightarrow> validator \<Rightarrow> validator" where
  "validate_duplicates rt df self =
     (let duplicate_pct = times100 (np_div (duplicate_count df) (nrows df));
          self1 = self\<lparr>validation_results :=
                    AList.update ''duplicates''
                      (VDict [(VStr ''duplicate_count'', VInt (int (duplicate_count df))),
                              (VStr ''duplicate_percentage'', VFloat duplicate_pct),
                              (VStr ''has_duplicates'', VBool (duplicate_count df > 0))])
                      (validation_results self)\<rparr>
      in
      if duplicate_count df > 0 then
        if fless (Fin 10) duplicate_pct then
          self1\<lparr>warnings := warnings self1 @
            [mk_finding ''duplicados'' ''warning''
               (''Se encontraron '' @ show_nat (duplicate_count df) @ '' filas duplicadas ('' @
                  fmt_f1 rt duplicate_pct @ ''%)'')
               ''Considera eliminar duplicados antes del analisis'']\<rparr>
        else
          self1\<lparr>suggestions := suggestions self1 @
            [mk_finding ''duplicados'' ''suggestion''
               (''Se encontraron '' @ show_nat (duplicate_count df) @ '' filas duplicadas ('' @
                  fmt_f1 rt duplicate_pct @ ''%)'')
               ''Revisa si los duplicados son intencionales'']\<rparr>
      else self1)"

subsection \<open>Check 5: outliers\<close>

text \<open>
  The quantile of pandas interpolates linearly between the two order statistics around
  the position \<open>q (n - 1)\<close>. The check calls it on at least four values.
\<close>

definition nums :: "cell list \<Rightarrow> real list" where
  "nums vs = List.map_filter (\<lambda>v. case v of Num r \<Rightarrow> Some r | Str _ \<Rightarrow> None) vs"

definition quantile :: "real list \<Rightarrow> real \<Rightarrow> real" where
  "quantile xs q =
     (let s = sort xs;
          h = q * real (length s - 1);
          lo = nat \<lfloor>h\<rfloor>;
          hi = nat \<lceil>h\<rceil>
      in s ! lo + (h - real lo) * (s ! hi - s ! lo))"

definition is_number_dtype :: "dtype \<Rightarrow> bool" where
  "is_number_dtype d = (d = Int64 \<or> d = Float64)"

fun outliers_loop :: "runtime \<Rightarrow> column list \<Rightarrow> pydict \<times> finding list \<times> finding list
    \<Rightarrow> pydict \<times> finding list \<times> finding list" where
  "outliers_loop rt [] acc = acc"
| "outliers_loop rt (c # cs) (outlier_info, warns, suggs) =
     (let col_data = nums (dropna (cvalues c)) in
      if length col_data < 4 then outliers_loop rt cs (outlier_info, warns, suggs)
      else
        let Q1 = quantile col_data 0.25;
            Q3 = quantile col_data 0.75;
            IQR = Q3 - Q1;
            lower_bound = Q1 - 1.5 * IQR;
            upper_bound = Q3 + 1.5 * IQR;
            outlier_count = length (filter (\<lambda>x. x < lower_bound \<or> x > upper_bound) col_data);
            outlier_pct = (real outlier_count / real (length col_data)) * 100;
            info = VDict [(VStr ''outlier_count'', VInt (int outlier_count)),
                          (VStr ''outlier_percentage'', VFloat (Fin outlier_pct)),
                          (VStr ''lower_bound'', VFloat (Fin lower_bound)),
                          (VStr ''upper_bound'', VFloat (Fin upper_bound)),
                          (VStr ''has_outliers'', VBool (outlier_count > 0))]
        in
        outliers_loop rt cs
          (AList.update (cname c) info outlier_info,
           (if outlier_pct > 5 then
              warns @ [mk_finding ''outliers'' ''warning''
                         (''La columna '' @ quoted (cname c) @ '' tiene '' @ show_nat outlier_count @
                            '' valores atipicos ('' @ fmt_f1 rt (Fin outlier_pct) @ ''%)'')
                         ''Revisa estos valores antes del analisis estadistico'']
            else warns),
           (if outlier_pct > 5 then suggs
            else if outlier_count > 0 then
              suggs @ [mk_finding ''outliers'' ''suggestion''
                         (''La columna '' @ quoted (cname c) @ '' tiene '' @ show_nat outlier_count @
                            '' valores atipicos'')
                         ''Considera si estos valores son errores o datos validos'']
            else suggs)))"

definition validate_outliers :: "runtime \<Rightarrow> table \<Rightarrow> validator \<Rightarrow> validator" where
  "validate_outliers rt df self =
     (case outliers_loop rt (filter (\<lambda>c. is_number_dtype (cdtype c)) (columns df)) ([], [], []) of
        (outlier_info, warns, suggs) \<Rightarrow>
          self\<lparr>warnings := warnings self @ warns,
               suggestions := suggestions self @ suggs,
               validation_results :=
                 AList.update ''outliers'' (VDict (map (\<lambda>(k, v). (VStr k, v)) outlier_info))
                   (validation_results self)\<rparr>)"

subsection \<open>Check 6: consistency\<close>

datatype issue = HighCardinalityCategorical string nat real | LowCardinalityNumeric string nat real

definition consistency_issue :: "column \<Rightarrow> issue list" where
  "consistency_issue c =
     (let col_data = dropna (cvalues c) in
      if length col_data = 0 then []
      else
        let unique_ratio = real (nunique (cvalues c)) / real (length col_data) in
        if cdtype c = ObjectT \<and> unique_ratio > 0.8 \<and> nunique (cvalues c) > 50 then
          [HighCardinalityCategorical (cname c) (nunique (cvalues c)) unique_ratio]
        else if is_number_dtype (cdtype c) \<and> nunique (cvalues c) < 10 \<and> length col_data > 100 then
          [LowCardinalityNumeric (cname c) (nunique (cvalues c)) unique_ratio]
        else [])"

definition issue_suggestion :: "issue \<Rightarrow> finding" where
  "issue_suggestion i =
     (case i of
        HighCardinalityCategorical col n r \<Rightarrow>
          mk_finding ''consistencia'' ''suggestion''
            (''La columna '' @ quoted col @ '' tiene muchos valores unicos ('' @ show_nat n @ '')'')
            ''Podria ser un identificador. Considera si es util para analisis''
      | LowCardinalityNumeric col n r \<Rightarrow>
          mk_finding ''consistencia'' ''suggestion''
            (''La columna numerica '' @ quoted col @ '' tiene pocos valores unicos ('' @ show_nat n @ '')'')
            ''Podria ser una variable categorica codificada numericamente'')"

definition issue_val :: "issue \<Rightarrow> pyval" where
  "issue_val i =
     (case i of
        HighCardinalityCategorical col n r \<Rightarrow>
          VDict [(VStr ''column'', VStr col), (VStr ''issue'', VStr ''high_cardinality_categorical''),
                 (VStr ''unique_count'', VInt (int n)), (VStr ''unique_ratio'', VFloat (Fin r))]
      | LowCardinalityNumeric col n r \<Rightarrow>
          VDict [(VStr ''column'', VStr col), (VStr ''issue'', VStr ''low_cardinality_numeric''),
                 (VStr ''unique_count'', VInt (int n)), (VStr ''unique_ratio'', VFloat (Fin r))])"

definition validate_data_consistency :: "table \<Rightarrow> validator \<Rightarrow> validator" where
  "validate_data_consistency df self =
     (let consistency_issues = concat (map consistency_issue (columns df)) in
      self\<lparr>suggestions := suggestions self @ map issue_suggestion consistency_issues,
           validation_results :=
             AList.update ''consistency'' (VList (map issue_val consistency_issues))
               (validation_results self)\<rparr>)"

subsection \<open>Check 7: column names\<close>

text \<open>
  \<open>code_like\<close> is the pattern \<^verbatim>\<open>^[A-Z]{1,3}\d+$\<close>: one to three capitals, then digits up
  to the end, where \<^verbatim>\<open>$\<close> also accepts one final line feed.
\<close>

definition code_like :: "string \<Rightarrow> bool" where
  "code_like s =
     (let body = (if s \<noteq> [] \<and> last s = CHR 0x0A then butlast s else s);
          letters = takeWhile is_upper body;
          digits = dropWhile is_upper body
      in 1 \<le> length letters \<and> length letters \<le> 3 \<and> digits \<noteq> [] \<and> list_all is_digit digits)"

definition name_issues :: "string \<Rightarrow> string list" where
  "name_issues column =
     (if column \<noteq> py_strip column then [''trailing_spaces''] else []) @
     (if list_ex (\<lambda>c. \<not> (is_word c \<or> is_space c \<or> c = CHR ''-'' \<or> c = CHR ''_'')) column
      then [''special_characters''] else []) @
     (if length column > 50 then [''too_long''] else []) @
     (if length column < 2 then [''too_short''] else []) @
     (if code_like column then [''code_like''] else [])"

definition name_suggestions :: "string \<Rightarrow> string list \<Rightarrow> finding list" where
  "name_suggestions column issues =
     (if ''trailing_spaces'' \<in> set issues then
        [mk_finding ''nombres_columnas'' ''suggestion''
           (''La columna '' @ quoted column @ '' tiene espacios al inicio o final'')
           ''Considera limpiar los nombres de columnas'']
      else []) @
     (if ''special_characters'' \<in> set issues then
        [mk_finding ''nombres_columnas'' ''suggestion''
           (''La columna '' @ quoted column @ '' contiene caracteres especiales'')
           ''Usa solo letras, numeros, guiones y guiones bajos'']
      else []) @
     (if ''too_long'' \<in> set issues then
        [mk_finding ''nombres_columnas'' ''suggestion''
           (''La columna '' @ quoted column @ '' tiene un nombre muy largo'')
           ''Considera usar un nombre mas corto y descriptivo'']
      else []) @
     (if ''code_like'' \<in> set issues then
        [mk_finding ''nombres_columnas'' ''suggestion''
           (''La columna '' @ quoted column @ '' parece ser un codigo'')
           ''Considera usar un nombre mas descriptivo'']
      else [])"

definition validate_column_names :: "table \<Rightarrow> validator \<Rightarrow> validator" where
  "validate_column_names df self =
     (let column_issues =
            filter (\<lambda>(column, issues). issues \<noteq> [])
              (map (\<lambda>c. (cname c, name_issues (cname c))) (columns df))
      in
      self\<lparr>suggestions := suggestions self @
             concat (map (\<lambda>(column, issues). name_suggestions column issues) column_issues),
           validation_results :=
             AList.update ''column_names''
               (VList (map (\<lambda>(column, issues).
                         VDict [(VStr ''column'', VStr column),
                                (VStr ''issues'', VList (map VStr issues))]) column_issues))
               (validation_results self)\<rparr>)"

subsection \<open>The whole validation\<close>

text \<open>
  In the model only the data type check can raise: the other checks divide numpy
  numbers, or guard their divisions, and the names of the columns are texts. So the
  handlers of the other six checks have nothing to catch and are left out.

  The report's keys \<^verbatim>\<open>warnings\<close> and \<^verbatim>\<open>suggestions\<close> are the fields \<open>report_warnings\<close>
  and \<open>report_suggestions\<close>.
\<close>

record report =
  is_valid :: bool
  errors :: "finding list"
  report_warnings :: "finding list"
  report_suggestions :: "finding list"
  validation_details :: pydict

definition run_checks :: "runtime \<Rightarrow> table \<Rightarrow> string \<Rightarrow> validator" where
  "run_checks rt df file_name =
     validate_column_names df
       (validate_data_consistency df
         (validate_outliers rt df
           (validate_duplicates rt df
             (validate_missing_values rt df
               (validate_data_types rt df
                 (validate_basic_structure rt df file_name new_validator))))))"

definition validate_dataframe :: "runtime \<Rightarrow> table \<Rightarrow> string \<Rightarrow> validator \<Rightarrow> report \<times> validator" where
  "validate_dataframe rt df file_name self0 =
     (let self = run_checks rt df file_name in
      (\<lparr>is_valid = (length (error_messages self) = 0),
        errors = error_messages self,
        report_warnings = warnings self,
        report_suggestions = suggestions self,
        validation_details = validation_results self\<rparr>,
       self))"

subsection \<open>The summary\<close>

definition calculate_validation_score :: "validator \<Rightarrow> int" where
  "calculate_validation_score self =
     (let score = 100;
          score = score - int (length (error_messages self)) * 20;
          score = score - int (length (warnings self)) * 5;
          score = score - int (length (suggestions self)) * 1
      in max 0 (min 100 score))"

record summary =
  total_errors :: nat
  total_warnings :: nat
  total_suggestions :: nat
  is_ready_for_analysis :: bool
  validation_score :: int

definition get_validation_summary :: "validator \<Rightarrow> summary" where
  "get_validation_summary self =
     \<lparr>total_errors = length (error_messages self),
      total_warnings = length (warnings self),
      total_suggestions = length (suggestions self),
      is_ready_for_analysis = (length (error_messages self) = 0),
      validation_score = calculate_validation_score self\<rparr>"

section \<open>The statistical analysis\<close>

subsection \<open>The numerical libraries\<close>

text \<open>
  The tests themselves are computed by numpy, pandas, scipy, statsmodels and
  scikit-learn. Their functions are parameters of the model, collected in one record,
  and every one that can raise returns an exception or a value. Arithmetic on numpy
  floats does not raise. The last two fields are the number formats of the
  interpretation texts: \<^verbatim>\<open>{x:.Nf}\<close> and \<^verbatim>\<open>{x}\<close>.
\<close>

record contingency =
  ct_index :: "cell list"
  ct_columns :: "cell list"
  ct_counts :: "nat list list"

record ols_model =
  rsquared :: pyfloat
  rsquared_adj :: pyfloat
  fvalue :: pyfloat
  f_pvalue :: pyfloat
  params :: "pyfloat list"
  pvalues :: "pyfloat list"
  conf_int :: "pyfloat list list"
  summary_text :: string

record kmeans_model =
  labels :: "int list"
  cluster_centers :: "pyfloat list list"
  inertia :: pyfloat

record stats_lib =
  f_add :: "pyfloat \<Rightarrow> pyfloat \<Rightarrow> pyfloat"
  f_sub :: "pyfloat \<Rightarrow> pyfloat \<Rightarrow> pyfloat"
  f_mul :: "pyfloat \<Rightarrow> pyfloat \<Rightarrow> pyfloat"
  f_div :: "pyfloat \<Rightarrow> pyfloat \<Rightarrow> pyfloat"
  f_sqrt :: "pyfloat \<Rightarrow> pyfloat"
  s_mean :: "cell list \<Rightarrow> exn + pyfloat"
  s_std :: "cell list \<Rightarrow> exn + pyfloat"
  s_min :: "cell list \<Rightarrow> exn + pyval"
  s_max :: "cell list \<Rightarrow> exn + pyval"
  ttest_1samp :: "cell list \<Rightarrow> pyfloat \<Rightarrow> exn + pyfloat \<times> pyfloat"
  t_interval :: "pyfloat \<Rightarrow> int \<Rightarrow> pyfloat \<Rightarrow> pyfloat \<Rightarrow> exn + pyfloat \<times> pyfloat"
  ttest_ind :: "cell list \<Rightarrow> cell list \<Rightarrow> bool \<Rightarrow> exn + pyfloat \<times> pyfloat"
  f_oneway :: "cell list list \<Rightarrow> exn + pyfloat \<times> pyfloat"
  crosstab :: "series \<Rightarrow> series \<Rightarrow> exn + contingency"
  chi2_contingency :: "contingency \<Rightarrow> exn + pyfloat \<times> pyfloat \<times> int \<times> pyfloat list list"
  pearsonr :: "cell list \<Rightarrow> cell list \<Rightarrow> exn + pyfloat \<times> pyfloat"
  spearmanr :: "cell list \<Rightarrow> cell list \<Rightarrow> exn + pyfloat \<times> pyfloat"
  kendalltau :: "cell list \<Rightarrow> cell list \<Rightarrow> exn + pyfloat \<times> pyfloat"
  ols_fit :: "cell list \<Rightarrow> cell list list \<Rightarrow> exn + ols_model"
  ols_predict :: "ols_model \<Rightarrow> cell list list \<Rightarrow> exn + pyfloat list"
  mean_squared_error :: "cell list \<Rightarrow> pyfloat list \<Rightarrow> exn + pyfloat"
  scaler_fit_transform :: "cell list list \<Rightarrow> exn + pyfloat list list"
  scaler_inverse_transform :: "cell list list \<Rightarrow> pyfloat list list \<Rightarrow> exn + pyfloat list list"
  kmeans_fit_predict :: "int \<Rightarrow> int \<Rightarrow> pyfloat list list \<Rightarrow> exn + kmeans_model"
  fmt_f :: "nat \<Rightarrow> pyfloat \<Rightarrow> string"
  fmt_val :: "pyfloat \<Rightarrow> string"

subsection \<open>State, error objects and helpers\<close>

text \<open>
  The only state of the class is the history of results. Every operation is one
  \<^verbatim>\<open>try\<close> block whose handler returns an error object; the body returns early with an
  error object, or appends its result to the history as its last step and returns it.
  So a body gives an exception, or the returned dictionary with the state it leaves, and
  an exception finds the state as it was at the call.
\<close>

record analysis =
  results_history :: "pydict list"

definition new_analysis :: analysis where
  "new_analysis = \<lparr>results_history = []\<rparr>"

definition error_dict :: "string \<Rightarrow> pydict" where
  "error_dict msg = [(''error'', VStr msg)]"

definition append_result :: "pydict \<Rightarrow> analysis \<Rightarrow> analysis" where
  "append_result result self = self\<lparr>results_history := results_history self @ [result]\<rparr>"

definition catch :: "string \<Rightarrow> analysis \<Rightarrow> exn + pydict \<times> analysis \<Rightarrow> pydict \<times> analysis" where
  "catch prefix self body =
     (case body of
        Inr out \<Rightarrow> out
      | Inl e \<Rightarrow> (error_dict (prefix @ str_exn e), self))"

fun traverse :: "('a \<Rightarrow> exn + 'b) \<Rightarrow> 'a list \<Rightarrow> exn + 'b list" where
  "traverse f [] = Inr []"
| "traverse f (x # xs) = andthen (f x) (\<lambda>y. andthen (traverse f xs) (\<lambda>ys. Inr (y # ys)))"

definition f_int :: "int \<Rightarrow> pyfloat" where
  "f_int i = Fin (real_of_int i)"

definition f_sq :: "stats_lib \<Rightarrow> pyfloat \<Rightarrow> pyfloat" where
  "f_sq L x = f_mul L x x"

definition py_sum :: "stats_lib \<Rightarrow> pyfloat list \<Rightarrow> pyfloat" where
  "py_sum L xs = fold (\<lambda>x acc. f_add L acc x) xs (Fin 0)"

definition f_abs :: "pyfloat \<Rightarrow> pyfloat" where
  "f_abs x = (case x of Fin r \<Rightarrow> Fin \<bar>r\<bar> | PosInf \<Rightarrow> PosInf | NegInf \<Rightarrow> PosInf | NaN \<Rightarrow> NaN)"

definition cell_float :: "cell \<Rightarrow> exn + pyfloat" where
  "cell_float v = (case v of Num r \<Rightarrow> Inr (Fin r) | Str s \<Rightarrow> Inl (LibraryError ''unsupported operand type(s)''))"

definition show_int :: "int \<Rightarrow> string" where
  "show_int i = (if i < 0 then ''-'' @ show_nat (nat (- i)) else show_nat (nat i))"

text \<open>
  \<^verbatim>\<open>Series.unique()\<close>: the distinct cells in the order of their first occurrence. A missing
  cell is one of them. In a comparison \<^verbatim>\<open>==\<close> a missing cell equals nothing, not even
  another missing cell.
\<close>

definition unique :: "'a list \<Rightarrow> 'a list" where
  "unique xs = rev (remdups (rev xs))"

definition cell_eq :: "cell option \<Rightarrow> cell option \<Rightarrow> bool" where
  "cell_eq a b = (case (a, b) of (Some x, Some y) \<Rightarrow> x = y | _ \<Rightarrow> False)"

text \<open>\<^verbatim>\<open>data[data[g] == value][column].dropna()\<close>\<close>

definition group_sample :: "table \<Rightarrow> column \<Rightarrow> string \<Rightarrow> cell option \<Rightarrow> exn + cell list" where
  "group_sample data gcol column g =
     andthen (getcol data column) (\<lambda>col.
     Inr (dropna (map snd (filter (\<lambda>(gv, v). cell_eq gv g) (zip (cvalues gcol) (cvalues col))))))"

subsection \<open>One-sample t test\<close>

definition interpret_t_test_one_sample :: "stats_lib \<Rightarrow> pyfloat \<Rightarrow> pyfloat \<Rightarrow> pyfloat \<Rightarrow> pyfloat \<Rightarrow> string" where
  "interpret_t_test_one_sample L sample_mean test_value p_value alpha =
     (if fless p_value alpha then
        let direction = (if fless test_value sample_mean then ''mayor'' else ''menor'') in
        ''La media muestral ('' @ fmt_f L 3 sample_mean @ '') es significativamente '' @ direction @
        '' que el valor de prueba ('' @ fmt_val L test_value @ '') (p = '' @ fmt_f L 4 p_value @ '').''
      else
        ''No hay evidencia suficiente para concluir que la media poblacional difiere de '' @
        fmt_val L test_value @ '' (p = '' @ fmt_f L 4 p_value @ '').'')"

definition t_test_one_sample_body ::
    "stats_lib \<Rightarrow> table \<Rightarrow> string \<Rightarrow> pyfloat \<Rightarrow> pyfloat \<Rightarrow> analysis \<Rightarrow> exn + pydict \<times> analysis" where
  "t_test_one_sample_body L data column test_value alpha self =
     andthen (getcol data column) (\<lambda>col.
     let sample_data = dropna (cvalues col) in
     andthen (ttest_1samp L sample_data test_value) (\<lambda>(t_stat, p_value).
     let n = length sample_data in
     andthen (s_mean L sample_data) (\<lambda>mean.
     andthen (s_std L sample_data) (\<lambda>std.
     let se = f_div L std (f_sqrt L (f_int (int n))) in
     andthen (t_interval L (f_sub L (Fin 1) alpha) (int n - 1) mean se) (\<lambda>(ci_low, ci_high).
     let is_significant = fless p_value alpha;
         effect_size = f_div L (f_sub L mean test_value) std;
         result =
           [(''test_type'', VStr ''Prueba t de una muestra''),
            (''variable'', VStr column),
            (''test_value'', VFloat test_value),
            (''sample_size'', VInt (int n)),
            (''sample_mean'', VFloat mean),
            (''sample_std'', VFloat std),
            (''standard_error'', VFloat se),
            (''t_statistic'', VFloat t_stat),
            (''p_value'', VFloat p_value),
            (''alpha'', VFloat alpha),
            (''is_significant'', VBool is_significant),
            (''confidence_interval'', VTuple [VFloat ci_low, VFloat ci_high]),
            (''effect_size'', VFloat effect_size),
            (''interpretation'', VStr (interpret_t_test_one_sample L mean test_value p_value alpha))]
     in Inr (result, append_result result self))))))"

definition t_test_one_sample ::
    "stats_lib \<Rightarrow> table \<Rightarrow> string \<Rightarrow> pyfloat \<Rightarrow> pyfloat \<Rightarrow> analysis \<Rightarrow> pydict \<times> analysis" where
  "t_test_one_sample L data column test_value alpha self =
     catch ''Error en prueba t de una muestra: '' self
       (t_test_one_sample_body L data column test_value alpha self)"

subsection \<open>Two-sample t test\<close>

definition interpret_t_test_two_samples :: "stats_lib \<Rightarrow> pyfloat \<Rightarrow> pyfloat \<Rightarrow> pyfloat \<Rightarrow> pyfloat \<Rightarrow> string" where
  "interpret_t_test_two_samples L mean1 mean2 p_value alpha =
     (if fless p_value alpha then
        let higher_group = (if fless mean2 mean1 then ''Grupo 1'' else ''Grupo 2'') in
        ''Existe una diferencia significativa entre los grupos (p = '' @ fmt_f L 4 p_value @ ''). '' @
        higher_group @ '' tiene una media mayor.''
      else
        ''No hay evidencia suficiente de diferencia entre los grupos (p = '' @ fmt_f L 4 p_value @ '').'')"

text \<open>The body after the guard on the number of groups.\<close>

definition two_samples_compute ::
    "stats_lib \<Rightarrow> table \<Rightarrow> string \<Rightarrow> string \<Rightarrow> column \<Rightarrow> cell option list \<Rightarrow> pyfloat \<Rightarrow> bool \<Rightarrow> analysis
     \<Rightarrow> exn + pydict \<times> analysis" where
  "two_samples_compute L data column group_column gcol groups alpha equal_var self =
     andthen (group_sample data gcol column (groups ! 0)) (\<lambda>group1_data.
     andthen (group_sample data gcol column (groups ! 1)) (\<lambda>group2_data.
     andthen (if equal_var then ttest_ind L group1_data group2_data True
              else ttest_ind L group1_data group2_data False) (\<lambda>(t_stat, p_value).
     let n1 = int (length group1_data); n2 = int (length group2_data) in
     andthen (s_mean L group1_data) (\<lambda>mean1.
     andthen (s_mean L group2_data) (\<lambda>mean2.
     andthen (s_std L group1_data) (\<lambda>std1.
     andthen (s_std L group2_data) (\<lambda>std2.
     let pooled_std =
           f_sqrt L (f_div L (f_add L (f_mul L (f_int (n1 - 1)) (f_sq L std1))
                                       (f_mul L (f_int (n2 - 1)) (f_sq L std2)))
                              (f_int (n1 + n2 - 2)));
         effect_size = f_div L (f_sub L mean1 mean2) pooled_std;
         result =
           [(''test_type'', VStr ''Prueba t de dos muestras independientes''),
            (''variable'', VStr column),
            (''group_variable'', VStr group_column),
            (''groups'', VList (map cell_val groups)),
            (''sample_sizes'', VList [VInt n1, VInt n2]),
            (''means'', VList [VFloat mean1, VFloat mean2]),
            (''std_devs'', VList [VFloat std1, VFloat std2]),
            (''t_statistic'', VFloat t_stat),
            (''p_value'', VFloat p_value),
            (''alpha'', VFloat alpha),
            (''is_significant'', VBool (fless p_value alpha)),
            (''effect_size'', VFloat effect_size),
            (''equal_variances'', VBool equal_var),
            (''interpretation'', VStr (interpret_t_test_two_samples L mean1 mean2 p_value alpha))]
     in Inr (result, append_result result self))))))))"

definition two_groups_error :: pydict where
  "two_groups_error = error_dict ''La variable de agrupacion debe tener exactamente 2 grupos''"

definition t_test_two_samples_body ::
    "stats_lib \<Rightarrow> table \<Rightarrow> string \<Rightarrow> string \<Rightarrow> pyfloat \<Rightarrow> bool \<Rightarrow> analysis \<Rightarrow> exn + pydict \<times> analysis" where
  "t_test_two_samples_body L data column group_column alpha equal_var self =
     andthen (getcol data group_column) (\<lambda>gcol.
     let groups = unique (cvalues gcol) in
     if length groups \<noteq> 2 then Inr (two_groups_error, self)
     else two_samples_compute L data column group_column gcol groups alpha equal_var self)"

definition t_test_two_samples ::
    "stats_lib \<Rightarrow> table \<Rightarrow> string \<Rightarrow> string \<Rightarrow> pyfloat \<Rightarrow> bool \<Rightarrow> analysis \<Rightarrow> pydict \<times> analysis" where
  "t_test_two_samples L data column group_column alpha equal_var self =
     catch ''Error en prueba t de dos muestras: '' self
       (t_test_two_samples_body L data column group_column alpha equal_var self)"

subsection \<open>One-way ANOVA\<close>

definition interpret_anova :: "stats_lib \<Rightarrow> pyfloat \<Rightarrow> pyfloat \<Rightarrow> pyfloat \<Rightarrow> pyfloat \<Rightarrow> string" where
  "interpret_anova L f_stat p_value alpha eta_squared =
     (if fless p_value alpha then
        let effect_size = (if fless eta_squared (Fin 0.06) then ''pequeno''
                           else if fless eta_squared (Fin 0.14) then ''mediano'' else ''grande'') in
        ''Existe al menos una diferencia significativa entre los grupos (F = '' @ fmt_f L 3 f_stat @
        '', p = '' @ fmt_f L 4 p_value @ ''). Tamano del efecto: '' @ effect_size @
        '' (eta2 = '' @ fmt_f L 3 eta_squared @ '').''
      else
        ''No hay evidencia de diferencias significativas entre los grupos (F = '' @ fmt_f L 3 f_stat @
        '', p = '' @ fmt_f L 4 p_value @ '').'')"

text \<open>The first loop: one sample for each level, levels without a value left out.\<close>

fun anova_groups :: "table \<Rightarrow> column \<Rightarrow> string \<Rightarrow> cell option list \<Rightarrow> exn + (cell list \<times> cell option) list" where
  "anova_groups data icol dependent_var [] = Inr []"
| "anova_groups data icol dependent_var (group_name # rest) =
     andthen (group_sample data icol dependent_var group_name) (\<lambda>group_data.
     andthen (anova_groups data icol dependent_var rest) (\<lambda>more.
     Inr (if length group_data > 0 then (group_data, group_name) # more else more)))"

definition group_statistics :: "stats_lib \<Rightarrow> cell list \<times> cell option \<Rightarrow> exn + pyval" where
  "group_statistics L g =
     (case g of (grp, group_name) \<Rightarrow>
        andthen (s_mean L grp) (\<lambda>m.
        andthen (s_std L grp) (\<lambda>sd.
        andthen (s_min L grp) (\<lambda>lo.
        andthen (s_max L grp) (\<lambda>hi.
        Inr (VDict [(VStr ''group'', cell_val group_name),
                    (VStr ''n'', VInt (int (length grp))),
                    (VStr ''mean'', VFloat m),
                    (VStr ''std'', VFloat sd),
                    (VStr ''min'', lo),
                    (VStr ''max'', hi)]))))))"

definition anova_one_way_body ::
    "stats_lib \<Rightarrow> table \<Rightarrow> string \<Rightarrow> string \<Rightarrow> pyfloat \<Rightarrow> analysis \<Rightarrow> exn + pydict \<times> analysis" where
  "anova_one_way_body L data dependent_var independent_var alpha self =
     andthen (getcol data independent_var) (\<lambda>icol.
     andthen (anova_groups data icol dependent_var (unique (cvalues icol))) (\<lambda>named_groups.
     let groups = map fst named_groups;
         group_names = map snd named_groups
     in
     if length groups < 2 then Inr (error_dict ''Se necesitan al menos 2 grupos para ANOVA'', self)
     else
       andthen (f_oneway L groups) (\<lambda>(f_stat, p_value).
       andthen (traverse (group_statistics L) named_groups) (\<lambda>group_stats.
       andthen (traverse (\<lambda>grp.
                  andthen (s_mean L grp) (\<lambda>m.
                  andthen (getcol data dependent_var) (\<lambda>dcol.
                  andthen (s_mean L (dropna (cvalues dcol))) (\<lambda>grand.
                  Inr (f_mul L (f_int (int (length grp))) (f_sq L (f_sub L m grand)))))))
                groups) (\<lambda>between_terms.
       andthen (traverse (\<lambda>x.
                  andthen (cell_float x) (\<lambda>xf.
                  andthen (getcol data dependent_var) (\<lambda>dcol.
                  andthen (s_mean L (dropna (cvalues dcol))) (\<lambda>grand.
                  Inr (f_sq L (f_sub L xf grand))))))
                (concat groups)) (\<lambda>total_terms.
       let ss_between = py_sum L between_terms;
           ss_total = py_sum L total_terms;
           eta_squared = (if fless (Fin 0) ss_total then f_div L ss_between ss_total else Fin 0);
           result =
             [(''test_type'', VStr ''ANOVA de un factor''),
              (''dependent_variable'', VStr dependent_var),
              (''independent_variable'', VStr independent_var),
              (''groups'', VList (map cell_val group_names)),
              (''group_statistics'', VList group_stats),
              (''f_statistic'', VFloat f_stat),
              (''p_value'', VFloat p_value),
              (''alpha'', VFloat alpha),
              (''is_significant'', VBool (fless p_value alpha)),
              (''eta_squared'', VFloat eta_squared),
              (''interpretation'', VStr (interpret_anova L f_stat p_value alpha eta_squared))]
       in Inr (result, append_result result self)))))))"

definition anova_one_way ::
    "stats_lib \<Rightarrow> table \<Rightarrow> string \<Rightarrow> string \<Rightarrow> pyfloat \<Rightarrow> analysis \<Rightarrow> pydict \<times> analysis" where
  "anova_one_way L data dependent_var independent_var alpha self =
     catch ''Error en ANOVA: '' self
       (anova_one_way_body L data dependent_var independent_var alpha self)"

subsection \<open>Chi-square test of independence\<close>

definition interpret_chi_square :: "stats_lib \<Rightarrow> pyfloat \<Rightarrow> pyfloat \<Rightarrow> pyfloat \<Rightarrow> pyfloat \<Rightarrow> string" where
  "interpret_chi_square L chi2 p_value alpha cramers_v =
     (if fless p_value alpha then
        let strength = (if fless cramers_v (Fin 0.3) then ''debil''
                        else if fless cramers_v (Fin 0.5) then ''moderada'' else ''fuerte'') in
        ''Existe una asociacion significativa entre las variables (chi2 = '' @ fmt_f L 3 chi2 @
        '', p = '' @ fmt_f L 4 p_value @ ''). Fuerza de asociacion: '' @ strength @
        '' (V = '' @ fmt_f L 3 cramers_v @ '').''
      else
        ''No hay evidencia de asociacion entre las variables (chi2 = '' @ fmt_f L 3 chi2 @
        '', p = '' @ fmt_f L 4 p_value @ '').'')"

text \<open>\<^verbatim>\<open>DataFrame.to_dict()\<close>: for each column, the dictionary from the index to the cell.\<close>

definition frame_to_dict :: "cell list \<Rightarrow> cell list \<Rightarrow> 'a list list \<Rightarrow> ('a \<Rightarrow> pyval) \<Rightarrow> pyval" where
  "frame_to_dict idx cols rows f =
     VDict (map (\<lambda>(c, col_cells).
                   (cell_val (Some c), VDict (map (\<lambda>(r, v). (cell_val (Some r), f v)) (zip idx col_cells))))
                (zip cols (transpose rows)))"

definition chi_square_test_body ::
    "stats_lib \<Rightarrow> table \<Rightarrow> string \<Rightarrow> string \<Rightarrow> pyfloat \<Rightarrow> analysis \<Rightarrow> exn + pydict \<times> analysis" where
  "chi_square_test_body L data var1 var2 alpha self =
     andthen (getcol data var1) (\<lambda>col1.
     andthen (getcol data var2) (\<lambda>col2.
     andthen (crosstab L (cvalues col1) (cvalues col2)) (\<lambda>contingency_table.
     andthen (chi2_contingency L contingency_table) (\<lambda>(chi2, p_value, dof, expected).
     let n = int (sum_list (map sum_list (ct_counts contingency_table)));
         shape_min = int (min (length (ct_index contingency_table)) (length (ct_columns contingency_table)));
         cramers_v = f_sqrt L (f_div L chi2 (f_int (n * (shape_min - 1))));
         result =
           [(''test_type'', VStr ''Prueba de chi-cuadrado de independencia''),
            (''variable_1'', VStr var1),
            (''variable_2'', VStr var2),
            (''contingency_table'',
               frame_to_dict (ct_index contingency_table) (ct_columns contingency_table)
                 (ct_counts contingency_table) (\<lambda>k. VInt (int k))),
            (''expected_frequencies'',
               frame_to_dict (ct_index contingency_table) (ct_columns contingency_table) expected VFloat),
            (''chi2_statistic'', VFloat chi2),
            (''p_value'', VFloat p_value),
            (''degrees_of_freedom'', VInt dof),
            (''alpha'', VFloat alpha),
            (''is_significant'', VBool (fless p_value alpha)),
            (''cramers_v'', VFloat cramers_v),
            (''interpretation'', VStr (interpret_chi_square L chi2 p_value alpha cramers_v))]
     in Inr (result, append_result result self)))))"

definition chi_square_test ::
    "stats_lib \<Rightarrow> table \<Rightarrow> string \<Rightarrow> string \<Rightarrow> pyfloat \<Rightarrow> analysis \<Rightarrow> pydict \<times> analysis" where
  "chi_square_test L data var1 var2 alpha self =
     catch ''Error en prueba de chi-cuadrado: '' self
       (chi_square_test_body L data var1 var2 alpha self)"

subsection \<open>Correlation\<close>

text \<open>
  \<^verbatim>\<open>data[names].dropna()\<close>: a KeyError when a name is not a column; else the rows in which
  none of the chosen columns is missing. The result is the number of these rows and,
  for each name, its cells in these rows.
\<close>

definition select_dropna :: "table \<Rightarrow> string list \<Rightarrow> exn + nat \<times> cell list list" where
  "select_dropna data names =
     andthen (traverse (getcol data) names) (\<lambda>cs.
     let idx = filter (\<lambda>i. list_all (\<lambda>c. cell_at c i \<noteq> None) cs) [0..<nrows data]
     in Inr (length idx, map (\<lambda>c. List.map_filter (cell_at c) idx) cs))"

definition to_upper :: "char \<Rightarrow> char" where
  "to_upper c =
     (case map_of (zip ''abcdefghijklmnopqrstuvwxyz'' ''ABCDEFGHIJKLMNOPQRSTUVWXYZ'') c of
        Some u \<Rightarrow> u
      | None \<Rightarrow> c)"

definition py_capitalize :: "string \<Rightarrow> string" where
  "py_capitalize s = (case s of [] \<Rightarrow> [] | c # cs \<Rightarrow> to_upper c # map to_lower cs)"

definition interpret_correlation_strength :: "pyfloat \<Rightarrow> string" where
  "interpret_correlation_strength abs_corr =
     (if fless abs_corr (Fin 0.1) then ''muy debil''
      else if fless abs_corr (Fin 0.3) then ''debil''
      else if fless abs_corr (Fin 0.5) then ''moderada''
      else if fless abs_corr (Fin 0.7) then ''fuerte''
      else ''muy fuerte'')"

definition interpret_correlation :: "stats_lib \<Rightarrow> pyfloat \<Rightarrow> pyfloat \<Rightarrow> pyfloat \<Rightarrow> string \<Rightarrow> string" where
  "interpret_correlation L corr_coef p_value alpha strength =
     (let direction = (if fless (Fin 0) corr_coef then ''positiva'' else ''negativa'') in
      if fless p_value alpha then
        ''Existe una correlacion '' @ direction @ '' '' @ strength @
        '' y estadisticamente significativa (r = '' @ fmt_f L 3 corr_coef @ '', p = '' @
        fmt_f L 4 p_value @ '').''
      else
        ''La correlacion '' @ direction @ '' '' @ strength @
        '' no es estadisticamente significativa (r = '' @ fmt_f L 3 corr_coef @ '', p = '' @
        fmt_f L 4 p_value @ '').'')"

definition too_few_observations_error :: pydict where
  "too_few_observations_error = error_dict ''Se necesitan al menos 3 observaciones validas''"

definition invalid_method_error :: pydict where
  "invalid_method_error = error_dict ''Metodo no valido. Use: pearson, spearman, o kendall''"

definition correlation_analysis_body ::
    "stats_lib \<Rightarrow> table \<Rightarrow> string \<Rightarrow> string \<Rightarrow> string \<Rightarrow> pyfloat \<Rightarrow> analysis \<Rightarrow> exn + pydict \<times> analysis" where
  "correlation_analysis_body L data var1 var2 method alpha self =
     andthen (select_dropna data [var1, var2]) (\<lambda>(n, valid_data).
     if n < 3 then Inr (too_few_observations_error, self)
     else
       let coefficient =
             (if method = ''pearson'' then Some (pearsonr L (valid_data ! 0) (valid_data ! 1))
              else if method = ''spearman'' then Some (spearmanr L (valid_data ! 0) (valid_data ! 1))
              else if method = ''kendall'' then Some (kendalltau L (valid_data ! 0) (valid_data ! 1))
              else None)
       in
       case coefficient of
         None \<Rightarrow> Inr (invalid_method_error, self)
       | Some computed \<Rightarrow>
           andthen computed (\<lambda>(corr_coef, p_value).
           let strength = interpret_correlation_strength (f_abs corr_coef);
               result =
                 [(''test_type'', VStr (''Correlacion de '' @ py_capitalize method)),
                  (''variable_1'', VStr var1),
                  (''variable_2'', VStr var2),
                  (''method'', VStr method),
                  (''sample_size'', VInt (int n)),
                  (''correlation_coefficient'', VFloat corr_coef),
                  (''p_value'', VFloat p_value),
                  (''alpha'', VFloat alpha),
                  (''is_significant'', VBool (fless p_value alpha)),
                  (''strength'', VStr strength),
                  (''interpretation'', VStr (interpret_correlation L corr_coef p_value alpha strength))]
           in Inr (result, append_result result self)))"

definition correlation_analysis ::
    "stats_lib \<Rightarrow> table \<Rightarrow> string \<Rightarrow> string \<Rightarrow> string \<Rightarrow> pyfloat \<Rightarrow> analysis \<Rightarrow> pydict \<times> analysis" where
  "correlation_analysis L data var1 var2 method alpha self =
     catch ''Error en analisis de correlacion: '' self
       (correlation_analysis_body L data var1 var2 method alpha self)"

subsection \<open>Linear regression\<close>

text \<open>The predictors are given as one name or as a list of names.\<close>

datatype predictors = OneName string | Names "string list"

definition dict_of_list :: "('k \<times> 'v) list \<Rightarrow> ('k \<times> 'v) list" where
  "dict_of_list kvs = fold (\<lambda>(k, v) d. AList.update k v d) kvs []"

definition interpret_regression :: "stats_lib \<Rightarrow> pyfloat \<Rightarrow> pyfloat \<Rightarrow> pyfloat \<Rightarrow> string" where
  "interpret_regression L r_squared f_p_value alpha =
     (if fless f_p_value alpha then
        let variance_explained = f_mul L r_squared (Fin 100) in
        ''El modelo es estadisticamente significativo (p = '' @ fmt_f L 4 f_p_value @
        '') y explica '' @ fmt_f L 1 variance_explained @ ''% de la varianza en la variable dependiente.''
      else
        ''El modelo no es estadisticamente significativo (p = '' @ fmt_f L 4 f_p_value @ '').'')"

definition linear_regression_body ::
    "stats_lib \<Rightarrow> table \<Rightarrow> string \<Rightarrow> predictors \<Rightarrow> pyfloat \<Rightarrow> analysis \<Rightarrow> exn + pydict \<times> analysis" where
  "linear_regression_body L data dependent_var independent_vars0 alpha self =
     (let independent_vars = (case independent_vars0 of OneName v \<Rightarrow> [v] | Names vs \<Rightarrow> vs);
          all_vars = [dependent_var] @ independent_vars
      in
      andthen (select_dropna data all_vars) (\<lambda>(n, valid_data).
      if n < length independent_vars + 2 then Inr (error_dict ''Datos insuficientes para regresion'', self)
      else
        let X = tl valid_data;
            y = hd valid_data
        in
        andthen (ols_fit L y X) (\<lambda>model.
        andthen (ols_predict L model X) (\<lambda>y_pred.
        let r_squared = rsquared model;
            adj_r_squared = rsquared_adj model
        in
        andthen (mean_squared_error L y y_pred) (\<lambda>mse.
        let rmse = f_sqrt L mse;
            names = [''const''] @ independent_vars;
            result =
              [(''test_type'', VStr ''Regresion lineal''),
               (''dependent_variable'', VStr dependent_var),
               (''independent_variables'', VList (map VStr independent_vars)),
               (''sample_size'', VInt (int n)),
               (''r_squared'', VFloat r_squared),
               (''adj_r_squared'', VFloat adj_r_squared),
               (''mse'', VFloat mse),
               (''rmse'', VFloat rmse),
               (''f_statistic'', VFloat (fvalue model)),
               (''f_p_value'', VFloat (f_pvalue model)),
               (''coefficients'',
                  VDict (map (\<lambda>(k, v). (VStr k, VFloat v)) (dict_of_list (zip names (params model))))),
               (''p_values'',
                  VDict (map (\<lambda>(k, v). (VStr k, VFloat v)) (dict_of_list (zip names (pvalues model))))),
               (''confidence_intervals'',
                  VDict (map (\<lambda>(k, v). (VStr k, VList (map VFloat v)))
                           (dict_of_list (zip names (conf_int model))))),
               (''is_significant'', VBool (fless (f_pvalue model) alpha)),
               (''summary'', VStr (summary_text model)),
               (''interpretation'', VStr (interpret_regression L r_squared (f_pvalue model) alpha))]
        in Inr (result, append_result result self))))))"

definition linear_regression ::
    "stats_lib \<Rightarrow> table \<Rightarrow> string \<Rightarrow> predictors \<Rightarrow> pyfloat \<Rightarrow> analysis \<Rightarrow> pydict \<times> analysis" where
  "linear_regression L data dependent_var independent_vars alpha self =
     catch ''Error en regresion lineal: '' self
       (linear_regression_body L data dependent_var independent_vars alpha self)"

subsection \<open>K-means clustering\<close>

text \<open>
  \<open>result_data\<close> is the copy of the valid rows with the column \<^verbatim>\<open>cluster\<close> assigned; the
  assignment raises when the labels are not one for each row.
\<close>

definition cluster_statistics ::
    "stats_lib \<Rightarrow> string list \<Rightarrow> (string \<times> cell list) list \<Rightarrow> nat \<Rightarrow> int \<Rightarrow> exn + pyval" where
  "cluster_statistics L variables result_data n i =
     (let in_cluster = map (\<lambda>l. l = Num (real_of_int i))
                         (case map_of result_data ''cluster'' of Some ls \<Rightarrow> ls | None \<Rightarrow> []);
          size = length (filter id in_cluster)
      in
      andthen (py_div size n) (\<lambda>share.
      andthen (traverse (\<lambda>var.
                 case map_of result_data var of
                   None \<Rightarrow> Inl (KeyError var)
                 | Some cells \<Rightarrow>
                     let subset = map snd (filter fst (zip in_cluster cells)) in
                     andthen (s_mean L subset) (\<lambda>m.
                     andthen (s_std L subset) (\<lambda>sd.
                     Inr [(VStr (var @ ''_mean''), VFloat m), (VStr (var @ ''_std''), VFloat sd)])))
               variables) (\<lambda>per_variable.
      Inr (VDict (fold (\<lambda>(k, v) d. AList.update k v d) (concat per_variable)
                    [(VStr ''cluster'', VInt i),
                     (VStr ''size'', VInt (int size)),
                     (VStr ''percentage'', VFloat (Fin (share * 100)))])))))"

definition to_records :: "(string \<times> cell list) list \<Rightarrow> pyval" where
  "to_records frame =
     VList (map (\<lambda>row. VDict (zip (map (\<lambda>(name, _). VStr name) frame) (map (\<lambda>v. cell_val (Some v)) row)))
              (transpose (map snd frame)))"

definition kmeans_clustering_body ::
    "stats_lib \<Rightarrow> table \<Rightarrow> string list \<Rightarrow> int \<Rightarrow> int \<Rightarrow> analysis \<Rightarrow> exn + pydict \<times> analysis" where
  "kmeans_clustering_body L data variables n_clusters random_state self =
     andthen (select_dropna data variables) (\<lambda>(n, cluster_data).
     if int n < n_clusters then
       Inr (error_dict (''Se necesitan al menos '' @ show_int n_clusters @ '' observaciones''), self)
     else
       andthen (scaler_fit_transform L cluster_data) (\<lambda>scaled_data.
       andthen (kmeans_fit_predict L n_clusters random_state scaled_data) (\<lambda>kmeans.
       let cluster_labels = labels kmeans in
       andthen (if length cluster_labels = n
                then Inr (AList.update ''cluster'' (map (\<lambda>l. Num (real_of_int l)) cluster_labels)
                            (dict_of_list (zip variables cluster_data)))
                else Inl (LibraryError ''Length of values does not match length of index'')) (\<lambda>result_data.
       andthen (scaler_inverse_transform L cluster_data (cluster_centers kmeans)) (\<lambda>centroids.
       andthen (traverse (cluster_statistics L variables result_data n) (map int [0..<nat n_clusters]))
         (\<lambda>cluster_stats.
       let result =
             [(''analysis_type'', VStr ''K-means Clustering''),
              (''variables'', VList (map VStr variables)),
              (''n_clusters'', VInt n_clusters),
              (''sample_size'', VInt (int n)),
              (''cluster_labels'', VList (map VInt cluster_labels)),
              (''centroids'', VList (map (\<lambda>row. VList (map VFloat row)) centroids)),
              (''cluster_statistics'', VList cluster_stats),
              (''inertia'', VFloat (inertia kmeans)),
              (''data_with_clusters'', to_records result_data)]
       in Inr (result, append_result result self)))))))"

definition kmeans_clustering ::
    "stats_lib \<Rightarrow> table \<Rightarrow> string list \<Rightarrow> int \<Rightarrow> int \<Rightarrow> analysis \<Rightarrow> pydict \<times> analysis" where
  "kmeans_clustering L data variables n_clusters random_state self =
     catch ''Error en clustering K-means: '' self
       (kmeans_clustering_body L data variables n_clusters random_state self)"

subsection \<open>History\<close>

definition get_analysis_history :: "analysis \<Rightarrow> pydict list" where
  "get_analysis_history self = results_history self"

definition clear_history :: "analysis \<Rightarrow> analysis" where
  "clear_history self = self\<lparr>results_history := []\<rparr>"

subsection \<open>Calls\<close>

text \<open>
  A call names one operation with its arguments, so that a property of every operation
  is one statement. \<open>run\<close> is the call itself; \<open>is_error\<close> is the callers' test
  \<^verbatim>\<open>'error' in result\<close>.
\<close>

datatype call =
    TTestOneSample string pyfloat pyfloat
  | TTestTwoSamples string string pyfloat bool
  | AnovaOneWay string string pyfloat
  | ChiSquareTest string string pyfloat
  | CorrelationAnalysis string string string pyfloat
  | LinearRegression string predictors pyfloat
  | KMeansClustering "string list" int int

fun run :: "stats_lib \<Rightarrow> table \<Rightarrow> call \<Rightarrow> analysis \<Rightarrow> pydict \<times> analysis" where
  "run L data (TTestOneSample column test_value alpha) self =
     t_test_one_sample L data column test_value alpha self"
| "run L data (TTestTwoSamples column group_column alpha equal_var) self =
     t_test_two_samples L data column group_column alpha equal_var self"
| "run L data (AnovaOneWay dependent_var independent_var alpha) self =
     anova_one_way L data dependent_var independent_var alpha self"
| "run L data (ChiSquareTest var1 var2 alpha) self =
     chi_square_test L data var1 var2 alpha self"
| "run L data (CorrelationAnalysis var1 var2 method alpha) self =
     correlation_analysis L data var1 var2 method alpha self"
| "run L data (LinearRegression dependent_var independent_vars alpha) self =
     linear_regression L data dependent_var independent_vars alpha self"
| "run L data (KMeansClustering variables n_clusters random_state) self =
     kmeans_clustering L data variables n_clusters random_state self"

definition is_error :: "pydict \<Rightarrow> bool" where
  "is_error result = has_key result ''error''"

text \<open>The significance level a call is given; the clustering takes none.\<close>

fun call_alpha :: "call \<Rightarrow> pyfloat option" where
  "call_alpha (TTestOneSample column test_value alpha) = Some alpha"
| "call_alpha (TTestTwoSamples column group_column alpha equal_var) = Some alpha"
| "call_alpha (AnovaOneWay dependent_var independent_var alpha) = Some alpha"
| "call_alpha (ChiSquareTest var1 var2 alpha) = Some alpha"
| "call_alpha (CorrelationAnalysis var1 var2 method alpha) = Some alpha"
| "call_alpha (LinearRegression dependent_var independent_vars alpha) = Some alpha"
| "call_alpha (KMeansClustering variables n_clusters random_state) = None"

text \<open>The key under which a result carries the p-value that decides its significance.\<close>

fun p_value_key :: "call \<Rightarrow> string" where
  "p_value_key (LinearRegression dependent_var independent_vars alpha) = ''f_p_value''"
| "p_value_key _ = ''p_value''"

text \<open>
  A result that carries a p-value under the key \<open>k\<close>, and whose field \<^verbatim>\<open>is_significant\<close> is the
  comparison of that p-value with \<open>alpha\<close>.
\<close>

definition significant_by :: "pydict \<Rightarrow> string \<Rightarrow> pyfloat \<Rightarrow> bool" where
  "significant_by r k alpha =
     (\<exists>p. map_of r k = Some (VFloat p) \<and> map_of r ''is_significant'' = Some (VBool (fless p alpha)))"

section \<open>Concrete inputs\<close>

text \<open>
  The properties below hold for every library and every runtime. To evaluate the
  operations on concrete tables, a stand-in library is used: its arithmetic is that of
  the reals, with NaN for every undefined case, and of square roots it knows those of 0
  and 1 only; mean, standard deviation, minimum and maximum are computed with that
  arithmetic; a test answers the statistic \<open>t\<close> and the p-value \<open>p\<close> it is
  built with, and NaN on a sample with fewer than two values, as scipy does (it warns
  and does not raise); the clustering puts every row into cluster 0.
\<close>

definition lift2 :: "(real \<Rightarrow> real \<Rightarrow> real) \<Rightarrow> pyfloat \<Rightarrow> pyfloat \<Rightarrow> pyfloat" where
  "lift2 f a b = (case (a, b) of (Fin x, Fin y) \<Rightarrow> Fin (f x y) | _ \<Rightarrow> NaN)"

definition real_mean :: "real list \<Rightarrow> pyfloat" where
  "real_mean xs = (if xs = [] then NaN else Fin (sum_list xs / real (length xs)))"

definition known_sqrt :: "pyfloat \<Rightarrow> pyfloat" where
  "known_sqrt a = (case a of Fin x \<Rightarrow> if x = 0 then Fin 0 else if x = 1 then Fin 1 else NaN | _ \<Rightarrow> NaN)"

definition real_std :: "real list \<Rightarrow> pyfloat" where
  "real_std xs =
     (if length xs < 2 then NaN
      else known_sqrt (Fin (sum_list (map (\<lambda>x. (x - sum_list xs / real (length xs)) ^ 2) xs) / real (length xs - 1))))"

definition real_extreme :: "(real \<Rightarrow> real \<Rightarrow> real) \<Rightarrow> real list \<Rightarrow> pyval" where
  "real_extreme f xs = (case xs of [] \<Rightarrow> VFloat NaN | x # rest \<Rightarrow> VFloat (Fin (fold f rest x)))"

definition small_or :: "pyfloat \<times> pyfloat \<Rightarrow> cell list list \<Rightarrow> pyfloat \<times> pyfloat" where
  "small_or answer samples = (if list_ex (\<lambda>vs. length vs < 2) samples then (NaN, NaN) else answer)"

definition stand_in_crosstab :: "series \<Rightarrow> series \<Rightarrow> contingency" where
  "stand_in_crosstab xs ys =
     (let pairs = List.map_filter (\<lambda>(x, y). case (x, y) of (Some a, Some b) \<Rightarrow> Some (a, b) | _ \<Rightarrow> None) (zip xs ys);
          idx = unique (map fst pairs);
          cols = unique (map snd pairs)
      in \<lparr>ct_index = idx, ct_columns = cols,
          ct_counts = map (\<lambda>a. map (\<lambda>b. length (filter (\<lambda>q. q = (a, b)) pairs)) cols) idx\<rparr>)"

definition stand_in_lib :: "pyfloat \<Rightarrow> pyfloat \<Rightarrow> stats_lib" where
  "stand_in_lib t p =
     \<lparr>f_add = lift2 (+),
      f_sub = lift2 (-),
      f_mul = lift2 (*),
      f_div = (\<lambda>a b. if b = Fin 0 then NaN else lift2 (/) a b),
      f_sqrt = known_sqrt,
      s_mean = (\<lambda>vs. Inr (real_mean (nums vs))),
      s_std = (\<lambda>vs. Inr (real_std (nums vs))),
      s_min = (\<lambda>vs. Inr (real_extreme min (nums vs))),
      s_max = (\<lambda>vs. Inr (real_extreme max (nums vs))),
      ttest_1samp = (\<lambda>vs test_value. Inr (small_or (t, p) [vs])),
      t_interval = (\<lambda>confidence df loc scale.
                      Inr (if df < 1 then (NaN, NaN) else (lift2 (-) loc scale, lift2 (+) loc scale))),
      ttest_ind = (\<lambda>vs ws equal_var. Inr (small_or (t, p) [vs, ws])),
      f_oneway = (\<lambda>samples. Inr (small_or (t, p) samples)),
      crosstab = (\<lambda>xs ys. Inr (stand_in_crosstab xs ys)),
      chi2_contingency = (\<lambda>ct. Inr (t, p,
                             (int (length (ct_index ct)) - 1) * (int (length (ct_columns ct)) - 1),
                             map (map (\<lambda>k. Fin (real k))) (ct_counts ct))),
      pearsonr = (\<lambda>vs ws. Inr (small_or (t, p) [vs, ws])),
      spearmanr = (\<lambda>vs ws. Inr (small_or (t, p) [vs, ws])),
      kendalltau = (\<lambda>vs ws. Inr (small_or (t, p) [vs, ws])),
      ols_fit = (\<lambda>y X. Inr \<lparr>rsquared = t, rsquared_adj = t, fvalue = t, f_pvalue = p,
                              params = replicate (Suc (length X)) (Fin 0),
                              pvalues = replicate (Suc (length X)) p,
                              conf_int = replicate (Suc (length X)) [Fin 0, Fin 0],
                              summary_text = []\<rparr>),
      ols_predict = (\<lambda>model X. Inr (replicate (case X of [] \<Rightarrow> 0 | x # _ \<Rightarrow> length x) (Fin 0))),
      mean_squared_error = (\<lambda>y y_pred. Inr (real_mean (map (\<lambda>x. x ^ 2) (nums y)))),
      scaler_fit_transform = (\<lambda>X. Inr (map (map (\<lambda>v. Fin 0)) X)),
      scaler_inverse_transform = (\<lambda>X centers. Inr (map (\<lambda>row. map (\<lambda>vs. real_mean (nums vs)) X) centers)),
      kmeans_fit_predict = (\<lambda>n_clusters random_state X.
                              Inr \<lparr>labels = replicate (case X of [] \<Rightarrow> 0 | x # _ \<Rightarrow> length x) 0,
                                   cluster_centers = replicate (nat n_clusters) (map (\<lambda>vs. Fin 0) X),
                                   inertia = Fin 0\<rparr>),
      fmt_f = (\<lambda>digits x. ''#''),
      fmt_val = (\<lambda>x. ''#'')\<rparr>"

text \<open>A stand-in runtime: no memory accounted, every number printed as \<open>#\<close>.\<close>

definition stand_in_runtime :: runtime where
  "stand_in_runtime =
     \<lparr>memory_usage = (\<lambda>df. 0), num_str = (\<lambda>r. ''#''), fmt_thousands = (\<lambda>n. ''#''),
      fmt_f1 = (\<lambda>x. ''#''), fmt_pct1 = (\<lambda>r. ''#'')\<rparr>"

definition num_column :: "string \<Rightarrow> real option list \<Rightarrow> column" where
  "num_column name xs = \<lparr>cname = name, cdtype = Float64, cvalues = map (map_option Num) xs\<rparr>"

definition text_column :: "string \<Rightarrow> string option list \<Rightarrow> column" where
  "text_column name xs = \<lparr>cname = name, cdtype = ObjectT, cvalues = map (map_option Str) xs\<rparr>"

text \<open>
  A library whose tests answer the statistic 2 and the p-value 0.01, a table with three
  scores, the same column with every score missing, and the clustering of the three
  scores into one cluster.
\<close>

definition demo_lib :: stats_lib where
  "demo_lib = stand_in_lib (Fin 2) (Fin 0.01)"

definition scores_table :: table where
  "scores_table = \<lparr>nrows = 3, columns = [num_column ''score'' [Some 1, Some 2, Some 4]]\<rparr>"

definition missing_scores_table :: table where
  "missing_scores_table = \<lparr>nrows = 2, columns = [num_column ''score'' [None, None]]\<rparr>"

definition kmeans_demo_result :: pydict where
  "kmeans_demo_result = fst (run demo_lib scores_table (KMeansClustering [''score''] 1 42) new_analysis)"

text \<open>
  Two arms with two scores each; the same with one row whose arm is missing; two
  variables of which one lacks a value, so that two valid pairs remain; one score.
\<close>

definition groups_table :: table where
  "groups_table =
     \<lparr>nrows = 4,
      columns = [text_column ''arm'' [Some ''a'', Some ''b'', Some ''a'', Some ''b''],
                 num_column ''score'' [Some 1, Some 2, Some 3, Some 5]]\<rparr>"

definition groups_missing_table :: table where
  "groups_missing_table =
     \<lparr>nrows = 5,
      columns = [text_column ''arm'' [Some ''a'', Some ''b'', None, Some ''a'', Some ''b''],
                 num_column ''score'' [Some 1, Some 2, Some 3, Some 5, Some 8]]\<rparr>"

definition pairs_table :: table where
  "pairs_table =
     \<lparr>nrows = 3,
      columns = [num_column ''x'' [Some 1, Some 2, None],
                 num_column ''y'' [Some 2, Some 4, Some 6]]\<rparr>"

definition one_score_table :: table where
  "one_score_table = \<lparr>nrows = 1, columns = [num_column ''score'' [Some 5]]\<rparr>"

text \<open>
  A text column of prices written with a decimal comma; one in which four of five
  values parse as a number; and a table whose second text column has no value at all.
\<close>

definition comma_table :: table where
  "comma_table = \<lparr>nrows = 4, columns = [text_column ''precio'' [Some ''12,5'', None, Some ''7,3'', Some ''9,0'']]\<rparr>"

definition four_of_five_table :: table where
  "four_of_five_table =
     \<lparr>nrows = 5, columns = [text_column ''precio'' [Some ''1'', Some ''2'', Some ''3'', Some ''4'', Some ''x'']]\<rparr>"

definition empty_text_table :: table where
  "empty_text_table =
     \<lparr>nrows = 3,
      columns = [text_column ''precio'' [Some ''12,5'', Some ''7,3'', Some ''9,0''],
                 text_column ''notas'' [None, None, None],
                 text_column ''fecha'' [Some ''2024-01-05'', Some ''2024-02-11'', None]]\<rparr>"

section \<open>Properties\<close>

subsection \<open>The validation summary\<close>

text \<open>
  Claim C2. Whatever findings a validation has accumulated, the summary's score is
  100 minus 20 for each error, 5 for each warning and 1 for each suggestion, clamped
  into the range from 0 to 100, and the table is ready for analysis exactly when there
  is no error. The score is a function of the three counts alone: the details
  dictionary, which holds the raw duplicate and missing percentages, does not enter it.
\<close>

theorem summary_score_and_readiness:
  "validation_score (get_validation_summary self) =
     max 0 (min 100 (100 - 20 * int (length (error_messages self))
                         - 5 * int (length (warnings self))
                         - int (length (suggestions self))))
   \<and> 0 \<le> validation_score (get_validation_summary self)
   \<and> validation_score (get_validation_summary self) \<le> 100
   \<and> is_ready_for_analysis (get_validation_summary self) = (total_errors (get_validation_summary self) = 0)
   \<and> total_errors (get_validation_summary self) = length (error_messages self)
   \<and> validation_score (get_validation_summary (self\<lparr>validation_results := details\<rparr>))
       = validation_score (get_validation_summary self)"
  by (simp add: get_validation_summary_def calculate_validation_score_def Let_def)

subsection \<open>Outcomes of a call\<close>

text \<open>
  Helper facts: what a body that returns has returned, for each operation, and from them
  the two outcomes of any call. Either the result is an error object and the state is
  untouched, or the result has the keys of its kind, its significance is the comparison
  of its p-value with the level, and the state is the old one with the result appended.
\<close>

lemma andthen_Inr_iff: "andthen m f = Inr r \<longleftrightarrow> (\<exists>x. m = Inr x \<and> f x = Inr r)"
  by (cases m) (simp_all add: andthen_def)

lemma catch_Inr: "catch prefix self (Inr out) = out"
  by (simp add: catch_def)

lemma catch_Inl: "catch prefix self (Inl e) = (error_dict (prefix @ str_exn e), self)"
  by (simp add: catch_def)

lemma is_error_error_dict: "is_error (error_dict msg)"
  by (simp add: is_error_def has_key_def error_dict_def)

lemma has_key_iff: "has_key d k \<longleftrightarrow> k \<in> set (map fst d)"
  by (simp add: has_key_def map_of_eq_None_iff)

lemma catch_cases:
  assumes "catch prefix self body = (r, self')"
  obtains (ok) "body = Inr (r, self')"
        | (raised) e where "body = Inl e" "r = error_dict (prefix @ str_exn e)" "self' = self"
  using assms by (cases body) (auto simp: catch_def)

lemma one_sample_body_shape:
  assumes "t_test_one_sample_body L data column test_value alpha self = Inr (r, self')"
  shows "self' = append_result r self
    \<and> map fst r = [''test_type'', ''variable'', ''test_value'', ''sample_size'', ''sample_mean'',
         ''sample_std'', ''standard_error'', ''t_statistic'', ''p_value'', ''alpha'', ''is_significant'',
         ''confidence_interval'', ''effect_size'', ''interpretation'']
    \<and> significant_by r ''p_value'' alpha"
  using assms
  unfolding t_test_one_sample_body_def
  by (auto simp: andthen_Inr_iff Let_def significant_by_def split: prod.splits)

lemma two_samples_body_shape:
  assumes "t_test_two_samples_body L data column group_column alpha equal_var self = Inr (r, self')"
  shows "(r = two_groups_error \<and> self' = self) \<or>
    (self' = append_result r self
    \<and> map fst r = [''test_type'', ''variable'', ''group_variable'', ''groups'', ''sample_sizes'', ''means'',
         ''std_devs'', ''t_statistic'', ''p_value'', ''alpha'', ''is_significant'',
         ''effect_size'', ''equal_variances'', ''interpretation'']
    \<and> significant_by r ''p_value'' alpha)"
  using assms
  unfolding t_test_two_samples_body_def two_samples_compute_def
  by (auto simp: andthen_Inr_iff Let_def significant_by_def split: prod.splits if_splits)

lemma anova_body_shape:
  assumes "anova_one_way_body L data dependent_var independent_var alpha self = Inr (r, self')"
  shows "(r = error_dict ''Se necesitan al menos 2 grupos para ANOVA'' \<and> self' = self) \<or>
    (self' = append_result r self
    \<and> map fst r = [''test_type'', ''dependent_variable'', ''independent_variable'', ''groups'',
         ''group_statistics'', ''f_statistic'', ''p_value'', ''alpha'', ''is_significant'',
         ''eta_squared'', ''interpretation'']
    \<and> significant_by r ''p_value'' alpha)"
  using assms
  unfolding anova_one_way_body_def
  by (auto simp: andthen_Inr_iff Let_def significant_by_def split: prod.splits if_splits)

lemma chi_square_body_shape:
  assumes "chi_square_test_body L data var1 var2 alpha self = Inr (r, self')"
  shows "self' = append_result r self
    \<and> map fst r = [''test_type'', ''variable_1'', ''variable_2'', ''contingency_table'',
         ''expected_frequencies'', ''chi2_statistic'', ''p_value'', ''degrees_of_freedom'', ''alpha'',
         ''is_significant'', ''cramers_v'', ''interpretation'']
    \<and> significant_by r ''p_value'' alpha"
  using assms
  unfolding chi_square_test_body_def
  by (auto simp: andthen_Inr_iff Let_def significant_by_def split: prod.splits if_splits)

lemma correlation_body_shape:
  assumes "correlation_analysis_body L data var1 var2 method alpha self = Inr (r, self')"
  shows "((r = too_few_observations_error \<or> r = invalid_method_error) \<and> self' = self) \<or>
    (self' = append_result r self
    \<and> map fst r = [''test_type'', ''variable_1'', ''variable_2'', ''method'', ''sample_size'',
         ''correlation_coefficient'', ''p_value'', ''alpha'', ''is_significant'', ''strength'',
         ''interpretation'']
    \<and> significant_by r ''p_value'' alpha)"
  using assms
  unfolding correlation_analysis_body_def
  by (auto simp: andthen_Inr_iff Let_def significant_by_def split: prod.splits if_splits option.splits)

lemma regression_body_shape:
  assumes "linear_regression_body L data dependent_var independent_vars alpha self = Inr (r, self')"
  shows "(r = error_dict ''Datos insuficientes para regresion'' \<and> self' = self) \<or>
    (self' = append_result r self
    \<and> map fst r = [''test_type'', ''dependent_variable'', ''independent_variables'', ''sample_size'',
         ''r_squared'', ''adj_r_squared'', ''mse'', ''rmse'', ''f_statistic'', ''f_p_value'',
         ''coefficients'', ''p_values'', ''confidence_intervals'', ''is_significant'', ''summary'',
         ''interpretation'']
    \<and> significant_by r ''f_p_value'' alpha)"
  using assms
  unfolding linear_regression_body_def
  by (auto simp: andthen_Inr_iff Let_def significant_by_def split: prod.splits if_splits)

lemma kmeans_body_shape:
  assumes "kmeans_clustering_body L data variables n_clusters random_state self = Inr (r, self')"
  shows "(is_error r \<and> self' = self) \<or>
    (self' = append_result r self
    \<and> map fst r = [''analysis_type'', ''variables'', ''n_clusters'', ''sample_size'',
         ''cluster_labels'', ''centroids'', ''cluster_statistics'', ''inertia'', ''data_with_clusters''])"
  using assms
  unfolding kmeans_clustering_body_def
  by (auto simp: andthen_Inr_iff Let_def is_error_error_dict split: prod.splits if_splits)


lemma not_error_keys: "''error'' \<notin> set (map fst r) \<Longrightarrow> \<not> is_error r"
  by (simp add: is_error_def has_key_iff)

lemma run_outcome:
  assumes "run L data c self = (r, self')"
  shows "(is_error r \<and> self' = self) \<or>
    (\<not> is_error r \<and> self' = append_result r self \<and>
     (case c of
        TTestOneSample column test_value alpha \<Rightarrow>
          map fst r = [''test_type'', ''variable'', ''test_value'', ''sample_size'', ''sample_mean'',
            ''sample_std'', ''standard_error'', ''t_statistic'', ''p_value'', ''alpha'', ''is_significant'',
            ''confidence_interval'', ''effect_size'', ''interpretation'']
          \<and> significant_by r ''p_value'' alpha
      | TTestTwoSamples column group_column alpha equal_var \<Rightarrow>
          map fst r = [''test_type'', ''variable'', ''group_variable'', ''groups'', ''sample_sizes'', ''means'',
            ''std_devs'', ''t_statistic'', ''p_value'', ''alpha'', ''is_significant'',
            ''effect_size'', ''equal_variances'', ''interpretation'']
          \<and> significant_by r ''p_value'' alpha
      | AnovaOneWay dependent_var independent_var alpha \<Rightarrow>
          map fst r = [''test_type'', ''dependent_variable'', ''independent_variable'', ''groups'',
            ''group_statistics'', ''f_statistic'', ''p_value'', ''alpha'', ''is_significant'',
            ''eta_squared'', ''interpretation'']
          \<and> significant_by r ''p_value'' alpha
      | ChiSquareTest var1 var2 alpha \<Rightarrow>
          map fst r = [''test_type'', ''variable_1'', ''variable_2'', ''contingency_table'',
            ''expected_frequencies'', ''chi2_statistic'', ''p_value'', ''degrees_of_freedom'', ''alpha'',
            ''is_significant'', ''cramers_v'', ''interpretation'']
          \<and> significant_by r ''p_value'' alpha
      | CorrelationAnalysis var1 var2 method alpha \<Rightarrow>
          map fst r = [''test_type'', ''variable_1'', ''variable_2'', ''method'', ''sample_size'',
            ''correlation_coefficient'', ''p_value'', ''alpha'', ''is_significant'', ''strength'',
            ''interpretation'']
          \<and> significant_by r ''p_value'' alpha
      | LinearRegression dependent_var independent_vars alpha \<Rightarrow>
          map fst r = [''test_type'', ''dependent_variable'', ''independent_variables'', ''sample_size'',
            ''r_squared'', ''adj_r_squared'', ''mse'', ''rmse'', ''f_statistic'', ''f_p_value'',
            ''coefficients'', ''p_values'', ''confidence_intervals'', ''is_significant'', ''summary'',
            ''interpretation'']
          \<and> significant_by r ''f_p_value'' alpha
      | KMeansClustering variables n_clusters random_state \<Rightarrow>
          map fst r = [''analysis_type'', ''variables'', ''n_clusters'', ''sample_size'',
            ''cluster_labels'', ''centroids'', ''cluster_statistics'', ''inertia'', ''data_with_clusters'']))"
proof (cases c)
  case (TTestOneSample column test_value alpha)
  with assms have "catch ''Error en prueba t de una muestra: '' self
       (t_test_one_sample_body L data column test_value alpha self) = (r, self')"
    by (simp add: t_test_one_sample_def)
  then show ?thesis
  proof (cases rule: catch_cases)
    case ok
    from one_sample_body_shape[OF ok] show ?thesis
      by (simp add: TTestOneSample not_error_keys)
  next
    case (raised e)
    then show ?thesis by (simp add: is_error_error_dict)
  qed
next
  case (TTestTwoSamples column group_column alpha equal_var)
  with assms have "catch ''Error en prueba t de dos muestras: '' self
       (t_test_two_samples_body L data column group_column alpha equal_var self) = (r, self')"
    by (simp add: t_test_two_samples_def)
  then show ?thesis
  proof (cases rule: catch_cases)
    case ok
    from two_samples_body_shape[OF ok] show ?thesis
      by (auto simp: TTestTwoSamples not_error_keys is_error_error_dict two_groups_error_def)
  next
    case (raised e)
    then show ?thesis by (simp add: is_error_error_dict)
  qed
next
  case (AnovaOneWay dependent_var independent_var alpha)
  with assms have "catch ''Error en ANOVA: '' self
       (anova_one_way_body L data dependent_var independent_var alpha self) = (r, self')"
    by (simp add: anova_one_way_def)
  then show ?thesis
  proof (cases rule: catch_cases)
    case ok
    from anova_body_shape[OF ok] show ?thesis
      by (auto simp: AnovaOneWay not_error_keys is_error_error_dict)
  next
    case (raised e)
    then show ?thesis by (simp add: is_error_error_dict)
  qed
next
  case (ChiSquareTest var1 var2 alpha)
  with assms have "catch ''Error en prueba de chi-cuadrado: '' self
       (chi_square_test_body L data var1 var2 alpha self) = (r, self')"
    by (simp add: chi_square_test_def)
  then show ?thesis
  proof (cases rule: catch_cases)
    case ok
    from chi_square_body_shape[OF ok] show ?thesis
      by (simp add: ChiSquareTest not_error_keys)
  next
    case (raised e)
    then show ?thesis by (simp add: is_error_error_dict)
  qed
next
  case (CorrelationAnalysis var1 var2 how alpha)
  with assms have "catch ''Error en analisis de correlacion: '' self
       (correlation_analysis_body L data var1 var2 how alpha self) = (r, self')"
    by (simp add: correlation_analysis_def)
  then show ?thesis
  proof (cases rule: catch_cases)
    case ok
    from correlation_body_shape[OF ok] show ?thesis
      by (auto simp: CorrelationAnalysis not_error_keys is_error_error_dict
            too_few_observations_error_def invalid_method_error_def)
  next
    case (raised e)
    then show ?thesis by (simp add: is_error_error_dict)
  qed
next
  case (LinearRegression dependent_var independent_vars alpha)
  with assms have "catch ''Error en regresion lineal: '' self
       (linear_regression_body L data dependent_var independent_vars alpha self) = (r, self')"
    by (simp add: linear_regression_def)
  then show ?thesis
  proof (cases rule: catch_cases)
    case ok
    from regression_body_shape[OF ok] show ?thesis
      by (auto simp: LinearRegression not_error_keys is_error_error_dict)
  next
    case (raised e)
    then show ?thesis by (simp add: is_error_error_dict)
  qed
next
  case (KMeansClustering variables n_clusters random_state)
  with assms have "catch ''Error en clustering K-means: '' self
       (kmeans_clustering_body L data variables n_clusters random_state self) = (r, self')"
    by (simp add: kmeans_clustering_def)
  then show ?thesis
  proof (cases rule: catch_cases)
    case ok
    from kmeans_body_shape[OF ok] show ?thesis
      by (auto simp: KMeansClustering not_error_keys)
  next
    case (raised e)
    then show ?thesis by (simp add: is_error_error_dict)
  qed
qed

subsection \<open>The history\<close>

text \<open>
  Claim C7. Within one instance, a call that returns a result that is not an error
  object appends exactly this result at the end of the history, so the history lists the
  results in the order of the calls; a call that returns an error object leaves the
  history as it was; and after \<^verbatim>\<open>clear_history\<close> the history is empty.
\<close>

theorem history_append_only:
  assumes "run L data c self = (r, self')"
  shows "(if is_error r then get_analysis_history self' = get_analysis_history self
          else get_analysis_history self' = get_analysis_history self @ [r])
       \<and> get_analysis_history (clear_history self') = []"
  using run_outcome[OF assms]
  by (auto simp: get_analysis_history_def clear_history_def append_result_def)

theorem history_append_only_witness:
  "\<not> is_error (fst (run demo_lib scores_table (TTestOneSample ''score'' (Fin 0) (Fin 0.05)) new_analysis))
   \<and> get_analysis_history (snd (run demo_lib scores_table (TTestOneSample ''score'' (Fin 0) (Fin 0.05)) new_analysis))
       = [fst (run demo_lib scores_table (TTestOneSample ''score'' (Fin 0) (Fin 0.05)) new_analysis)]
   \<and> is_error (fst (run demo_lib scores_table (TTestOneSample ''age'' (Fin 0) (Fin 0.05)) new_analysis))
   \<and> get_analysis_history (snd (run demo_lib scores_table (TTestOneSample ''age'' (Fin 0) (Fin 0.05)) new_analysis)) = []"
proof -
  have ok: "\<not> is_error (fst (run demo_lib scores_table (TTestOneSample ''score'' (Fin 0) (Fin 0.05)) new_analysis))"
    by code_simp
  have bad: "is_error (fst (run demo_lib scores_table (TTestOneSample ''age'' (Fin 0) (Fin 0.05)) new_analysis))"
    by code_simp
  have empty: "get_analysis_history new_analysis = []"
    by (simp add: get_analysis_history_def new_analysis_def)
  show ?thesis
    using ok bad empty
      history_append_only[OF surjective_pairing, of demo_lib scores_table "TTestOneSample ''score'' (Fin 0) (Fin 0.05)" new_analysis]
      history_append_only[OF surjective_pairing, of demo_lib scores_table "TTestOneSample ''age'' (Fin 0) (Fin 0.05)" new_analysis]
    by simp
qed

subsection \<open>Significance\<close>

text \<open>
  Claim C1. For each of the six tests and whatever level \<open>alpha\<close> the caller gives (so in
  particular for every level between 0 and 1), a result that is not an error object has
  \<^verbatim>\<open>is_significant\<close> equal to the strict comparison of its p-value with \<open>alpha\<close>; the
  p-value is the field \<^verbatim>\<open>p_value\<close>, and for the linear regression the p-value of the overall
  F test, the field \<^verbatim>\<open>f_p_value\<close>. On finite numbers \<^const>\<open>fless\<close> is \<open><\<close> on the reals.
\<close>

theorem significance_iff_p_below_alpha:
  assumes "run L data c self = (r, self')" and "\<not> is_error r" and "call_alpha c = Some alpha"
  shows "\<exists>p. map_of r (p_value_key c) = Some (VFloat p)
            \<and> map_of r ''is_significant'' = Some (VBool (fless p alpha))"
  using run_outcome[OF assms(1)] assms(2,3)
  by (cases c) (auto simp: significant_by_def)

theorem significance_iff_p_below_alpha_witness:
  "map_of (fst (run demo_lib scores_table (TTestOneSample ''score'' (Fin 0) (Fin 0.05)) new_analysis)) ''p_value''
     = Some (VFloat (Fin 0.01))
   \<and> map_of (fst (run demo_lib scores_table (TTestOneSample ''score'' (Fin 0) (Fin 0.05)) new_analysis)) ''is_significant''
     = Some (VBool True)
   \<and> map_of (fst (run demo_lib scores_table (TTestOneSample ''score'' (Fin 0) (Fin 0.001)) new_analysis)) ''is_significant''
     = Some (VBool False)"
proof -
  have ok1: "\<not> is_error (fst (run demo_lib scores_table (TTestOneSample ''score'' (Fin 0) (Fin 0.05)) new_analysis))"
    by code_simp
  have ok2: "\<not> is_error (fst (run demo_lib scores_table (TTestOneSample ''score'' (Fin 0) (Fin 0.001)) new_analysis))"
    by code_simp
  have p1: "map_of (fst (run demo_lib scores_table (TTestOneSample ''score'' (Fin 0) (Fin 0.05)) new_analysis)) ''p_value''
     = Some (VFloat (Fin 0.01))"
    by code_simp
  have p2: "map_of (fst (run demo_lib scores_table (TTestOneSample ''score'' (Fin 0) (Fin 0.001)) new_analysis)) ''p_value''
     = Some (VFloat (Fin 0.01))"
    by code_simp
  show ?thesis
    using p1 p2
      significance_iff_p_below_alpha[OF surjective_pairing ok1, of "Fin 0.05"]
      significance_iff_p_below_alpha[OF surjective_pairing ok2, of "Fin 0.001"]
    by simp
qed

subsection \<open>The fields of a result\<close>

text \<open>
  Claim C4 says that every result that is not an error object, that of the clustering
  included, has the fields \<^verbatim>\<open>test_type\<close>, \<^verbatim>\<open>p_value\<close>, \<^verbatim>\<open>alpha\<close>, \<^verbatim>\<open>is_significant\<close> and
  \<^verbatim>\<open>interpretation\<close>. The clustering of three scores into one cluster returns a result
  that is not an error object and has none of the five.
\<close>

theorem kmeans_result_lacks_test_fields:
  "\<not> is_error kmeans_demo_result
   \<and> \<not> has_key kmeans_demo_result ''test_type''
   \<and> \<not> has_key kmeans_demo_result ''p_value''
   \<and> \<not> has_key kmeans_demo_result ''alpha''
   \<and> \<not> has_key kmeans_demo_result ''is_significant''
   \<and> \<not> has_key kmeans_demo_result ''interpretation''"
  unfolding kmeans_demo_result_def by code_simp

text \<open>
  Claim C4, amended. A result that is not an error object has the five fields when it
  comes from a t test, the ANOVA, the chi-square test or the correlation. The result of
  the linear regression has \<^verbatim>\<open>test_type\<close>, \<^verbatim>\<open>is_significant\<close> and \<^verbatim>\<open>interpretation\<close>, carries
  its p-value as \<^verbatim>\<open>f_p_value\<close>, and has neither \<^verbatim>\<open>p_value\<close> nor \<^verbatim>\<open>alpha\<close>. The result of the
  clustering has none of the five; its label is the field \<^verbatim>\<open>analysis_type\<close>.
\<close>

theorem result_fields_by_kind:
  assumes "run L data c self = (r, self')" and "\<not> is_error r"
  shows "case c of
      LinearRegression dependent_var independent_vars alpha \<Rightarrow>
        has_key r ''test_type'' \<and> has_key r ''f_p_value'' \<and> has_key r ''is_significant''
        \<and> has_key r ''interpretation'' \<and> \<not> has_key r ''p_value'' \<and> \<not> has_key r ''alpha''
    | KMeansClustering variables n_clusters random_state \<Rightarrow>
        has_key r ''analysis_type'' \<and> \<not> has_key r ''test_type'' \<and> \<not> has_key r ''p_value''
        \<and> \<not> has_key r ''alpha'' \<and> \<not> has_key r ''is_significant'' \<and> \<not> has_key r ''interpretation''
    | _ \<Rightarrow>
        has_key r ''test_type'' \<and> has_key r ''p_value'' \<and> has_key r ''alpha''
        \<and> has_key r ''is_significant'' \<and> has_key r ''interpretation''"
  using run_outcome[OF assms(1)] assms(2)
  by (cases c) (auto simp: has_key_iff)

theorem result_fields_by_kind_witness:
  "has_key (fst (run demo_lib scores_table (TTestOneSample ''score'' (Fin 0) (Fin 0.05)) new_analysis)) ''test_type''
   \<and> has_key (fst (run demo_lib scores_table (TTestOneSample ''score'' (Fin 0) (Fin 0.05)) new_analysis)) ''p_value''
   \<and> has_key (fst (run demo_lib scores_table (TTestOneSample ''score'' (Fin 0) (Fin 0.05)) new_analysis)) ''alpha''
   \<and> has_key (fst (run demo_lib scores_table (LinearRegression ''score'' (Names []) (Fin 0.05)) new_analysis)) ''f_p_value''
   \<and> \<not> has_key (fst (run demo_lib scores_table (LinearRegression ''score'' (Names []) (Fin 0.05)) new_analysis)) ''alpha''
   \<and> has_key (fst (run demo_lib scores_table (KMeansClustering [''score''] 1 42) new_analysis)) ''analysis_type''"
proof -
  have ok1: "\<not> is_error (fst (run demo_lib scores_table (TTestOneSample ''score'' (Fin 0) (Fin 0.05)) new_analysis))"
    by code_simp
  have ok2: "\<not> is_error (fst (run demo_lib scores_table (LinearRegression ''score'' (Names []) (Fin 0.05)) new_analysis))"
    by code_simp
  have ok3: "\<not> is_error (fst (run demo_lib scores_table (KMeansClustering [''score''] 1 42) new_analysis))"
    by code_simp
  show ?thesis
    using result_fields_by_kind[OF surjective_pairing ok1]
      result_fields_by_kind[OF surjective_pairing ok2]
      result_fields_by_kind[OF surjective_pairing ok3]
    by simp
qed

subsection \<open>The guard of the two-sample t test\<close>

lemma length_unique: "length (unique xs) = card (set xs)"
  by (simp add: unique_def length_remdups_card_conv)

lemma two_samples_compute_shape:
  assumes "two_samples_compute L data column group_column gcol groups alpha equal_var self = Inr (r, self')"
  shows "self' = append_result r self
    \<and> map fst r = [''test_type'', ''variable'', ''group_variable'', ''groups'', ''sample_sizes'', ''means'',
         ''std_devs'', ''t_statistic'', ''p_value'', ''alpha'', ''is_significant'',
         ''effect_size'', ''equal_variances'', ''interpretation'']"
  using assms
  unfolding two_samples_compute_def
  by (auto simp: andthen_Inr_iff Let_def split: prod.splits if_splits)

lemma two_samples_guard_fails:
  assumes "getcol data group_column = Inr gcol" and "card (set (cvalues gcol)) \<noteq> 2"
  shows "t_test_two_samples L data column group_column alpha equal_var self = (two_groups_error, self)"
  using assms
  by (simp add: t_test_two_samples_def t_test_two_samples_body_def andthen_def catch_def length_unique)

lemma two_samples_guard_passes:
  assumes "getcol data group_column = Inr gcol" and "card (set (cvalues gcol)) = 2"
  shows "t_test_two_samples L data column group_column alpha equal_var self =
     catch ''Error en prueba t de dos muestras: '' self
       (two_samples_compute L data column group_column gcol (unique (cvalues gcol)) alpha equal_var self)"
  using assms
  by (simp add: t_test_two_samples_def t_test_two_samples_body_def andthen_def length_unique)

lemma catch_not_two_groups_error:
  "fst (catch ''Error en prueba t de dos muestras: '' self
       (two_samples_compute L data column group_column gcol groups alpha equal_var self)) \<noteq> two_groups_error"
proof (cases "two_samples_compute L data column group_column gcol groups alpha equal_var self")
  case (Inl e)
  then show ?thesis by (simp add: catch_def error_dict_def two_groups_error_def)
next
  case (Inr out)
  obtain r s where out: "out = (r, s)" by (cases out)
  from two_samples_compute_shape[OF Inr[unfolded out]] have "map fst r \<noteq> map fst two_groups_error"
    by (simp add: two_groups_error_def error_dict_def)
  then show ?thesis using Inr out by (auto simp: catch_def)
qed

lemma catch_is_error_iff:
  "is_error (fst (catch ''Error en prueba t de dos muestras: '' self
       (two_samples_compute L data column group_column gcol groups alpha equal_var self)))
   \<longleftrightarrow> (\<exists>e. two_samples_compute L data column group_column gcol groups alpha equal_var self = Inl e)"
proof (cases "two_samples_compute L data column group_column gcol groups alpha equal_var self")
  case (Inl e)
  then show ?thesis by (simp add: catch_def is_error_error_dict)
next
  case (Inr out)
  obtain r s where out: "out = (r, s)" by (cases out)
  from two_samples_compute_shape[OF Inr[unfolded out]] have "\<not> is_error r"
    by (simp add: not_error_keys)
  then show ?thesis using Inr out by (auto simp: catch_def)
qed

text \<open>
  Claim C5 says that the two-sample t test returns an error object exactly when the
  number of distinct values of the grouping column differs from 2. With the two arms
  \<open>a\<close> and \<open>b\<close> and a column \<open>weight\<close> that the table does not have, the guard is passed, the
  lookup of the column raises, and the handler returns an error object.
\<close>

theorem two_groups_and_absent_column_is_an_error:
  "card (set (cvalues (text_column ''arm'' [Some ''a'', Some ''b'', Some ''a'', Some ''b'']))) = 2
   \<and> getcol groups_table ''arm'' = Inr (text_column ''arm'' [Some ''a'', Some ''b'', Some ''a'', Some ''b''])
   \<and> is_error (fst (t_test_two_samples demo_lib groups_table ''weight'' ''arm'' (Fin 0.05) True new_analysis))"
  by code_simp

text \<open>
  Claim C5, amended. For every table that has the grouping column: the number of
  distinct values of that column, a missing value being one of them, decides the guard.
  When it is not 2 the two-sample t test returns the error object of the guard, leaving
  the history alone, and when it is 2 the call is the computation of the test under the
  handler. So the guard's error object is returned exactly when the number differs
  from 2, and with two groups an error object is returned exactly when the computation
  itself raises. Nothing is raised to the caller: the operation is a total function into
  results.
\<close>

theorem two_sample_group_guard:
  assumes "getcol data group_column = Inr gcol"
  shows "(card (set (cvalues gcol)) \<noteq> 2 \<longrightarrow>
            t_test_two_samples L data column group_column alpha equal_var self = (two_groups_error, self))
       \<and> (card (set (cvalues gcol)) = 2 \<longrightarrow>
            t_test_two_samples L data column group_column alpha equal_var self =
              catch ''Error en prueba t de dos muestras: '' self
                (two_samples_compute L data column group_column gcol (unique (cvalues gcol)) alpha equal_var self))
       \<and> ((fst (t_test_two_samples L data column group_column alpha equal_var self) = two_groups_error)
            = (card (set (cvalues gcol)) \<noteq> 2))
       \<and> (card (set (cvalues gcol)) = 2 \<longrightarrow>
            is_error (fst (t_test_two_samples L data column group_column alpha equal_var self)) =
              (\<exists>e. two_samples_compute L data column group_column gcol (unique (cvalues gcol)) alpha equal_var self = Inl e))
       \<and> is_error two_groups_error"
  using two_samples_guard_fails[OF assms] two_samples_guard_passes[OF assms]
    catch_not_two_groups_error catch_is_error_iff
  by (auto simp: two_groups_error_def is_error_error_dict)

theorem two_sample_group_guard_witness:
  "\<not> is_error (fst (t_test_two_samples demo_lib groups_table ''score'' ''arm'' (Fin 0.05) True new_analysis))
   \<and> fst (t_test_two_samples demo_lib groups_table ''score'' ''arm'' (Fin 0.05) True new_analysis) \<noteq> two_groups_error
   \<and> t_test_two_samples demo_lib pairs_table ''y'' ''x'' (Fin 0.05) True new_analysis = (two_groups_error, new_analysis)"
proof -
  have g1: "getcol groups_table ''arm'' = Inr (text_column ''arm'' [Some ''a'', Some ''b'', Some ''a'', Some ''b''])"
    by code_simp
  have c1: "card (set (cvalues (text_column ''arm'' [Some ''a'', Some ''b'', Some ''a'', Some ''b'']))) = 2"
    by code_simp
  have g2: "getcol pairs_table ''x'' = Inr (num_column ''x'' [Some 1, Some 2, None])"
    by code_simp
  have c2: "card (set (cvalues (num_column ''x'' [Some 1, Some 2, None]))) = 3"
    by code_simp
  have ok: "\<not> is_error (fst (t_test_two_samples demo_lib groups_table ''score'' ''arm'' (Fin 0.05) True new_analysis))"
    by code_simp
  have a: "fst (t_test_two_samples demo_lib groups_table ''score'' ''arm'' (Fin 0.05) True new_analysis) \<noteq> two_groups_error"
    using two_sample_group_guard[OF g1, of demo_lib "''score''" "Fin 0.05" True new_analysis] c1
    by blast
  have "card (set (cvalues (num_column ''x'' [Some 1, Some 2, None]))) \<noteq> 2"
    using c2 by simp
  then have b: "t_test_two_samples demo_lib pairs_table ''y'' ''x'' (Fin 0.05) True new_analysis = (two_groups_error, new_analysis)"
    using two_sample_group_guard[OF g2, of demo_lib "''y''" "Fin 0.05" True new_analysis]
    by blast
  show ?thesis
    using ok a b by blast
qed

subsection \<open>A missing value is a group\<close>

lemma card_with_missing:
  assumes "None \<in> set xs"
  shows "card (set xs) = Suc (card (set (dropna xs)))"
proof -
  have s: "set (dropna xs) = {x. Some x \<in> set xs}"
    by (force simp: dropna_def List.map_filter_def)
  have "set xs = insert None (Some ` set (dropna xs))"
  proof (rule set_eqI)
    fix v show "v \<in> set xs \<longleftrightarrow> v \<in> insert None (Some ` set (dropna xs))"
      using assms s by (cases v) auto
  qed
  then have "card (set xs) = card (insert None (Some ` set (dropna xs)))" by simp
  also have "\<dots> = Suc (card (Some ` set (dropna xs)))"
    by (rule card_insert_disjoint) auto
  also have "card (Some ` set (dropna xs)) = card (set (dropna xs))"
    by (rule card_image) simp
  finally show ?thesis .
qed

text \<open>
  Claim C9. When the grouping column has exactly two distinct values that are not
  missing and at least one missing value, the groups enumerated are three, and the call
  returns the error object of the guard instead of testing the two groups.
\<close>

theorem missing_group_counts_as_group:
  assumes "getcol data group_column = Inr gcol"
    and "card (set (dropna (cvalues gcol))) = 2"
    and "None \<in> set (cvalues gcol)"
  shows "t_test_two_samples L data column group_column alpha equal_var self = (two_groups_error, self)"
  using two_samples_guard_fails[OF assms(1)] card_with_missing[OF assms(3)] assms(2)
  by simp


theorem missing_group_counts_as_group_witness:
  "t_test_two_samples demo_lib groups_missing_table ''score'' ''arm'' (Fin 0.05) True new_analysis
     = (two_groups_error, new_analysis)"
proof -
  have g: "getcol groups_missing_table ''arm'' = Inr (text_column ''arm'' [Some ''a'', Some ''b'', None, Some ''a'', Some ''b''])"
    by code_simp
  have c: "card (set (dropna (cvalues (text_column ''arm'' [Some ''a'', Some ''b'', None, Some ''a'', Some ''b''])))) = 2"
    by code_simp
  have m: "None \<in> set (cvalues (text_column ''arm'' [Some ''a'', Some ''b'', None, Some ''a'', Some ''b'']))"
    by code_simp
  show ?thesis
    by (rule missing_group_counts_as_group[OF g c m])
qed

subsection \<open>An invalid correlation method\<close>

text \<open>
  Claim C6 says that a method other than pearson, spearman and kendall is rejected at
  once with the error object for an invalid method, before anything is computed. With
  two valid pairs the method \<open>cosine\<close> gets the error object for too few observations
  instead: the rows are filtered and counted before the method is looked at.
\<close>

theorem invalid_method_not_rejected_first:
  "''cosine'' \<notin> set [''pearson'', ''spearman'', ''kendall'']
   \<and> fst (correlation_analysis demo_lib pairs_table ''x'' ''y'' ''cosine'' (Fin 0.05) new_analysis)
       = too_few_observations_error
   \<and> too_few_observations_error \<noteq> invalid_method_error"
  by code_simp

lemma correlation_needs_three_pairs:
  assumes "select_dropna data [var1, var2] = Inr (n, valid_data)" and "n < 3"
  shows "correlation_analysis L data var1 var2 how alpha self = (too_few_observations_error, self)"
  using assms
  by (simp add: correlation_analysis_def correlation_analysis_body_def andthen_def catch_def)

lemma correlation_key_error:
  assumes "select_dropna data [var1, var2] = Inl e"
  shows "correlation_analysis L data var1 var2 how alpha self =
           (error_dict (''Error en analisis de correlacion: '' @ str_exn e), self)"
  using assms
  by (simp add: correlation_analysis_def correlation_analysis_body_def andthen_def catch_def)

lemma correlation_invalid_method:
  assumes "select_dropna data [var1, var2] = Inr (n, valid_data)" and "\<not> n < 3"
    and "how \<notin> set [''pearson'', ''spearman'', ''kendall'']"
  shows "correlation_analysis L data var1 var2 how alpha self = (invalid_method_error, self)"
  using assms
  by (simp add: correlation_analysis_def correlation_analysis_body_def andthen_def catch_def)

text \<open>
  Claim C6, amended. For a method other than pearson, spearman and kendall the call
  returns an error object, leaves the history alone and raises nothing. The rows with a
  missing value are dropped and counted first: with fewer than three valid pairs the
  error object is the one for too few observations, with three or more it is the one
  for an invalid method, and when a column does not exist it is the handler's. No
  coefficient is computed: the outcome is the same under every library.
\<close>

theorem invalid_method_rejected_after_count:
  assumes "how \<notin> set [''pearson'', ''spearman'', ''kendall'']"
  shows "is_error (fst (correlation_analysis L data var1 var2 how alpha self))
       \<and> snd (correlation_analysis L data var1 var2 how alpha self) = self
       \<and> (\<forall>n valid_data. select_dropna data [var1, var2] = Inr (n, valid_data) \<longrightarrow>
             fst (correlation_analysis L data var1 var2 how alpha self) =
               (if n < 3 then too_few_observations_error else invalid_method_error))
       \<and> (\<forall>e. select_dropna data [var1, var2] = Inl e \<longrightarrow>
             fst (correlation_analysis L data var1 var2 how alpha self) =
               error_dict (''Error en analisis de correlacion: '' @ str_exn e))
       \<and> correlation_analysis L data var1 var2 how alpha self
           = correlation_analysis L' data var1 var2 how alpha self"
proof (cases "select_dropna data [var1, var2]")
  case (Inl e)
  show ?thesis
    using correlation_key_error[OF Inl] Inl by (simp add: is_error_error_dict)
next
  case (Inr out)
  obtain n valid_data where out: "out = (n, valid_data)" by (cases out)
  show ?thesis
  proof (cases "n < 3")
    case True
    show ?thesis
      using correlation_needs_three_pairs[OF Inr[unfolded out] True] Inr out True
      by (simp add: is_error_error_dict too_few_observations_error_def)
  next
    case False
    show ?thesis
      using correlation_invalid_method[OF Inr[unfolded out] False assms] Inr out False
      by (simp add: is_error_error_dict invalid_method_error_def)
  qed
qed

theorem invalid_method_rejected_after_count_witness:
  "fst (correlation_analysis demo_lib groups_table ''score'' ''score'' ''cosine'' (Fin 0.05) new_analysis)
     = invalid_method_error
   \<and> snd (correlation_analysis demo_lib groups_table ''score'' ''score'' ''cosine'' (Fin 0.05) new_analysis)
     = new_analysis"
proof -
  have m: "''cosine'' \<notin> set [''pearson'', ''spearman'', ''kendall'']"
    by code_simp
  have s: "select_dropna groups_table [''score'', ''score''] = Inr (4, [[Num 1, Num 2, Num 3, Num 5], [Num 1, Num 2, Num 3, Num 5]])"
    by code_simp
  show ?thesis
    using invalid_method_rejected_after_count[OF m, of demo_lib groups_table "''score''" "''score''" "Fin 0.05" new_analysis] s
    by simp
qed

subsection \<open>Samples below a minimum size\<close>

text \<open>
  Correlation refuses fewer than three valid pairs (\<open>correlation_needs_three_pairs\<close>
  above). The one-sample t test has no such guard: it returns a result whenever the
  library calls return, whatever the size of the sample.
\<close>

lemma one_sample_no_size_guard:
  assumes "getcol data column = Inr col"
    and "ttest_1samp L (dropna (cvalues col)) test_value = Inr tp"
    and "s_mean L (dropna (cvalues col)) = Inr m"
    and "s_std L (dropna (cvalues col)) = Inr sd"
    and "t_interval L (f_sub L (Fin 1) alpha) (int (length (dropna (cvalues col))) - 1) m
           (f_div L sd (f_sqrt L (f_int (int (length (dropna (cvalues col))))))) = Inr ci"
  shows "\<not> is_error (fst (t_test_one_sample L data column test_value alpha self))"
  using assms
  by (simp add: t_test_one_sample_def t_test_one_sample_body_def andthen_def catch_def Let_def
        is_error_def has_key_def split: prod.splits)

text \<open>
  Claim C3 says that every test fails below its minimum sample size instead of
  returning a degenerate result, the one-sample t test in particular. On a column with
  one value, and on a column with no value at all, where the libraries answer NaN without
  raising, the one-sample t test returns a result that is not an error object, with a
  NaN p-value, and appends it to the history.
\<close>

theorem one_sample_t_test_accepts_tiny_samples:
  "\<not> is_error (fst (t_test_one_sample demo_lib one_score_table ''score'' (Fin 0) (Fin 0.05) new_analysis))
   \<and> map_of (fst (t_test_one_sample demo_lib one_score_table ''score'' (Fin 0) (Fin 0.05) new_analysis)) ''sample_size''
       = Some (VInt 1)
   \<and> map_of (fst (t_test_one_sample demo_lib one_score_table ''score'' (Fin 0) (Fin 0.05) new_analysis)) ''p_value''
       = Some (VFloat NaN)
   \<and> map_of (fst (t_test_one_sample demo_lib one_score_table ''score'' (Fin 0) (Fin 0.05) new_analysis)) ''is_significant''
       = Some (VBool False)
   \<and> results_history (snd (t_test_one_sample demo_lib one_score_table ''score'' (Fin 0) (Fin 0.05) new_analysis))
       = [fst (t_test_one_sample demo_lib one_score_table ''score'' (Fin 0) (Fin 0.05) new_analysis)]
   \<and> \<not> is_error (fst (t_test_one_sample demo_lib missing_scores_table ''score'' (Fin 0) (Fin 0.05) new_analysis))
   \<and> map_of (fst (t_test_one_sample demo_lib missing_scores_table ''score'' (Fin 0) (Fin 0.05) new_analysis)) ''sample_size''
       = Some (VInt 0)
   \<and> map_of (fst (t_test_one_sample demo_lib missing_scores_table ''score'' (Fin 0) (Fin 0.05) new_analysis)) ''p_value''
       = Some (VFloat NaN)"
  by code_simp

subsection \<open>The type check on a text column without values\<close>

text \<open>
  Helper facts: the numeric part of the type check never raises; the date part raises
  exactly on a text column without a value; the loop stops at the first such column; and
  what the other checks add carries their own categories and their own keys.
\<close>

lemma numeric_problems_eq:
  "numeric_problems rt c =
     Inr (if cdtype c = ObjectT \<and> dropna (cvalues c) \<noteq> [] \<and> 0.8 < convertible_ratio rt c
          then [NumericAsText (cname c) (convertible_ratio rt c)] else [])"
  by (auto simp: numeric_problems_def convertible_ratio_def py_div_def andthen_def Let_def min_def)

lemma date_problems_empty:
  assumes "cdtype c = ObjectT" and "dropna (cvalues c) = []"
  shows "date_problems rt c = Inl ZeroDivisionError"
  using assms by (simp add: date_problems_def py_div_def andthen_def)

lemma date_problems_ok:
  assumes "cdtype c = ObjectT \<longrightarrow> dropna (cvalues c) \<noteq> []"
  shows "\<exists>ps. date_problems rt c = Inr ps \<and> (\<forall>p\<in>set ps. \<exists>col r. p = DateAsText col r)"
  using assms by (simp add: date_problems_def py_div_def andthen_def Let_def)

lemma data_types_loop_raises:
  assumes "c \<in> set cs" and "cdtype c = ObjectT" and "dropna (cvalues c) = []"
  shows "data_types_loop rt cs type_info problematic = Inl ZeroDivisionError"
  using assms
proof (induction cs arbitrary: type_info problematic)
  case Nil
  then show ?case by simp
next
  case (Cons a cs)
  show ?case
  proof (cases "cdtype a = ObjectT \<and> dropna (cvalues a) = []")
    case True
    then show ?thesis
      by (simp add: numeric_problems_eq date_problems_empty andthen_def)
  next
    case False
    then have "cdtype a = ObjectT \<longrightarrow> dropna (cvalues a) \<noteq> []" by simp
    from date_problems_ok[OF this] obtain ps where ps: "date_problems rt a = Inr ps" by blast
    from False Cons.prems have "c \<in> set cs" by auto
    from Cons.IH[OF this Cons.prems(2,3)] show ?thesis
      by (simp add: numeric_problems_eq ps andthen_def)
  qed
qed

lemma validate_data_types_raises:
  assumes "c \<in> set (columns df)" and "cdtype c = ObjectT" and "dropna (cvalues c) = []"
  shows "validate_data_types rt df self =
           self\<lparr>error_messages := error_messages self @ [data_types_error ZeroDivisionError]\<rparr>"
  by (simp add: validate_data_types_def data_types_loop_raises[OF assms])


lemma has_key_update: "has_key (AList.update k v d) k' \<longleftrightarrow> k' = k \<or> has_key d k'"
  by (auto simp: has_key_def update_conv')

lemma filter_added: "(\<And>f. f \<in> set ys \<Longrightarrow> \<not> P f) \<Longrightarrow> filter P (xs @ ys) = filter P xs"
  by (induction ys) auto

lemma basic_structure_new:
  "filter (\<lambda>f. ftype f = ''tipos_datos'') (error_messages (validate_basic_structure rt df file_name new_validator)) = []"
  "suggestions (validate_basic_structure rt df file_name new_validator) = []"
  "\<not> has_key (validation_results (validate_basic_structure rt df file_name new_validator)) ''data_types''"
  by (simp_all add: validate_basic_structure_def new_validator_def mk_finding_def Let_def has_key_update has_key_def)

lemma missing_values_effect:
  "filter (\<lambda>f. ftype f = ''tipos_datos'') (error_messages (validate_missing_values rt df v))
     = filter (\<lambda>f. ftype f = ''tipos_datos'') (error_messages v)"
  "filter (\<lambda>f. ftype f = ''tipo_datos'') (suggestions (validate_missing_values rt df v))
     = filter (\<lambda>f. ftype f = ''tipo_datos'') (suggestions v)"
  "has_key (validation_results (validate_missing_values rt df v)) k
     \<longleftrightarrow> k = ''missing_values'' \<or> has_key (validation_results v) k"
  by (simp_all add: validate_missing_values_def mk_finding_def Let_def has_key_update filter_map comp_def
        split: prod.splits)

lemma duplicates_effect:
  "error_messages (validate_duplicates rt df v) = error_messages v"
  "filter (\<lambda>f. ftype f = ''tipo_datos'') (suggestions (validate_duplicates rt df v))
     = filter (\<lambda>f. ftype f = ''tipo_datos'') (suggestions v)"
  "has_key (validation_results (validate_duplicates rt df v)) k
     \<longleftrightarrow> k = ''duplicates'' \<or> has_key (validation_results v) k"
  by (simp_all add: validate_duplicates_def mk_finding_def Let_def has_key_update)

lemma outliers_loop_suggestions:
  "filter (\<lambda>f. ftype f = ''tipo_datos'') (snd (snd (outliers_loop rt cs (info, warns, suggs))))
     = filter (\<lambda>f. ftype f = ''tipo_datos'') suggs"
  by (induction cs arbitrary: info warns suggs) (simp_all add: Let_def mk_finding_def)

lemma outliers_effect:
  "error_messages (validate_outliers rt df v) = error_messages v"
  "filter (\<lambda>f. ftype f = ''tipo_datos'') (suggestions (validate_outliers rt df v))
     = filter (\<lambda>f. ftype f = ''tipo_datos'') (suggestions v)"
  "has_key (validation_results (validate_outliers rt df v)) k
     \<longleftrightarrow> k = ''outliers'' \<or> has_key (validation_results v) k"
proof -
  obtain info warns suggs where
    l: "outliers_loop rt (filter (\<lambda>c. is_number_dtype (cdtype c)) (columns df)) ([], [], []) = (info, warns, suggs)"
    by (cases "outliers_loop rt (filter (\<lambda>c. is_number_dtype (cdtype c)) (columns df)) ([], [], [])") auto
  from outliers_loop_suggestions[of rt "filter (\<lambda>c. is_number_dtype (cdtype c)) (columns df)" "[]" "[]" "[]"] l
  have s: "filter (\<lambda>f. ftype f = ''tipo_datos'') suggs = []" by simp
  show "error_messages (validate_outliers rt df v) = error_messages v"
    by (simp add: validate_outliers_def l)
  show "filter (\<lambda>f. ftype f = ''tipo_datos'') (suggestions (validate_outliers rt df v))
     = filter (\<lambda>f. ftype f = ''tipo_datos'') (suggestions v)"
    by (simp add: validate_outliers_def l s)
  show "has_key (validation_results (validate_outliers rt df v)) k
     \<longleftrightarrow> k = ''outliers'' \<or> has_key (validation_results v) k"
    by (simp add: validate_outliers_def l has_key_update)
qed

lemma issue_suggestion_ftype: "ftype (issue_suggestion i) = ''consistencia''"
  by (cases i) (simp_all add: issue_suggestion_def mk_finding_def)

lemma consistency_effect:
  "error_messages (validate_data_consistency df v) = error_messages v"
  "filter (\<lambda>f. ftype f = ''tipo_datos'') (suggestions (validate_data_consistency df v))
     = filter (\<lambda>f. ftype f = ''tipo_datos'') (suggestions v)"
  "has_key (validation_results (validate_data_consistency df v)) k
     \<longleftrightarrow> k = ''consistency'' \<or> has_key (validation_results v) k"
  by (simp_all add: validate_data_consistency_def Let_def has_key_update filter_map comp_def issue_suggestion_ftype)

lemma name_suggestions_ftype: "f \<in> set (name_suggestions column issues) \<Longrightarrow> ftype f = ''nombres_columnas''"
  by (auto simp: name_suggestions_def mk_finding_def split: if_splits)

lemma column_names_effect:
  "error_messages (validate_column_names df v) = error_messages v"
  "filter (\<lambda>f. ftype f = ''tipo_datos'') (suggestions (validate_column_names df v))
     = filter (\<lambda>f. ftype f = ''tipo_datos'') (suggestions v)"
  "has_key (validation_results (validate_column_names df v)) k
     \<longleftrightarrow> k = ''column_names'' \<or> has_key (validation_results v) k"
proof -
  show "error_messages (validate_column_names df v) = error_messages v"
    by (simp add: validate_column_names_def Let_def)
  show "has_key (validation_results (validate_column_names df v)) k
     \<longleftrightarrow> k = ''column_names'' \<or> has_key (validation_results v) k"
    by (simp add: validate_column_names_def Let_def has_key_update)
  show "filter (\<lambda>f. ftype f = ''tipo_datos'') (suggestions (validate_column_names df v))
     = filter (\<lambda>f. ftype f = ''tipo_datos'') (suggestions v)"
  proof -
    have "filter (\<lambda>f. ftype f = ''tipo_datos'')
            (concat (map (\<lambda>(column, issues). name_suggestions column issues)
               (filter (\<lambda>(column, issues). issues \<noteq> [])
                  (map (\<lambda>c. (cname c, name_issues (cname c))) (columns df))))) = []"
      by (auto simp: filter_empty_conv dest: name_suggestions_ftype)
    then show ?thesis
      by (simp add: validate_column_names_def Let_def)
  qed
qed

text \<open>
  Claim C10. When a table has a text column with no value that is not missing, the
  date ratio of the type check divides by zero. The handler of the check turns the
  exception into one finding of severity error in the category of the type check and
  nothing else of the check remains: the report is not valid, it has no type suggestion
  for any column, hence none for the columns after the offending one, and no type
  details. The checks of missing values, duplicates, outliers, consistency and column
  names run after it on the state it leaves, and each records its details.
\<close>

theorem empty_text_column_aborts_type_check:
  assumes "c \<in> set (columns df)" and "cdtype c = ObjectT" and "dropna (cvalues c) = []"
    and "distinct (map cname (columns df))"
  shows "date_problems rt c = Inl ZeroDivisionError
    \<and> validate_data_types rt df self =
        self\<lparr>error_messages := error_messages self @ [data_types_error ZeroDivisionError]\<rparr>
    \<and> ftype (data_types_error ZeroDivisionError) = ''tipos_datos''
    \<and> severity (data_types_error ZeroDivisionError) = ''error''
    \<and> \<not> is_valid (fst (validate_dataframe rt df file_name self0))
    \<and> filter (\<lambda>f. ftype f = ''tipos_datos'') (errors (fst (validate_dataframe rt df file_name self0)))
        = [data_types_error ZeroDivisionError]
    \<and> filter (\<lambda>f. ftype f = ''tipo_datos'') (report_suggestions (fst (validate_dataframe rt df file_name self0))) = []
    \<and> \<not> has_key (validation_details (fst (validate_dataframe rt df file_name self0))) ''data_types''
    \<and> (\<forall>k \<in> set [''missing_values'', ''duplicates'', ''outliers'', ''consistency'', ''column_names''].
          has_key (validation_details (fst (validate_dataframe rt df file_name self0))) k)
    \<and> run_checks rt df file_name =
        validate_column_names df
          (validate_data_consistency df
            (validate_outliers rt df
              (validate_duplicates rt df
                (validate_missing_values rt df
                  ((validate_basic_structure rt df file_name new_validator)
                     \<lparr>error_messages := error_messages (validate_basic_structure rt df file_name new_validator)
                        @ [data_types_error ZeroDivisionError]\<rparr>)))))"
proof -
  let ?v1 = "validate_basic_structure rt df file_name new_validator"
  let ?v2 = "?v1\<lparr>error_messages := error_messages ?v1 @ [data_types_error ZeroDivisionError]\<rparr>"
  have t: "validate_data_types rt df v = v\<lparr>error_messages := error_messages v @ [data_types_error ZeroDivisionError]\<rparr>" for v
    by (rule validate_data_types_raises[OF assms(1,2,3)])
  have rc: "run_checks rt df file_name =
        validate_column_names df (validate_data_consistency df (validate_outliers rt df
          (validate_duplicates rt df (validate_missing_values rt df ?v2))))"
    by (simp add: run_checks_def t)
  have e: "filter (\<lambda>f. ftype f = ''tipos_datos'') (error_messages (run_checks rt df file_name))
             = [data_types_error ZeroDivisionError]"
    by (simp add: rc column_names_effect consistency_effect outliers_effect duplicates_effect
          missing_values_effect basic_structure_new data_types_error_def mk_finding_def)
  have s: "filter (\<lambda>f. ftype f = ''tipo_datos'') (suggestions (run_checks rt df file_name)) = []"
    by (simp add: rc column_names_effect consistency_effect outliers_effect duplicates_effect
          missing_values_effect basic_structure_new)
  have k: "has_key (validation_results (run_checks rt df file_name)) k \<longleftrightarrow>
             k \<in> set [''column_names'', ''consistency'', ''outliers'', ''duplicates'', ''missing_values'']
             \<or> has_key (validation_results ?v1) k" for k
    by (simp add: rc column_names_effect consistency_effect outliers_effect duplicates_effect
          missing_values_effect)
  have nv: "error_messages (run_checks rt df file_name) \<noteq> []"
  proof
    assume "error_messages (run_checks rt df file_name) = []"
    with e show False by simp
  qed
  have rep: "fst (validate_dataframe rt df file_name self0) =
      \<lparr>is_valid = (length (error_messages (run_checks rt df file_name)) = 0),
       errors = error_messages (run_checks rt df file_name),
       report_warnings = warnings (run_checks rt df file_name),
       report_suggestions = suggestions (run_checks rt df file_name),
       validation_details = validation_results (run_checks rt df file_name)\<rparr>"
    by (simp add: validate_dataframe_def Let_def)
  have c1: "date_problems rt c = Inl ZeroDivisionError"
    by (rule date_problems_empty[OF assms(2,3)])
  have c3: "ftype (data_types_error ZeroDivisionError) = ''tipos_datos''
      \<and> severity (data_types_error ZeroDivisionError) = ''error''"
    by (simp add: data_types_error_def mk_finding_def)
  have c5: "\<not> is_valid (fst (validate_dataframe rt df file_name self0))"
    using nv by (simp add: rep)
  have c6: "filter (\<lambda>f. ftype f = ''tipos_datos'') (errors (fst (validate_dataframe rt df file_name self0)))
        = [data_types_error ZeroDivisionError]"
    using e by (simp add: rep)
  have c7: "filter (\<lambda>f. ftype f = ''tipo_datos'') (report_suggestions (fst (validate_dataframe rt df file_name self0))) = []"
    using s by (simp add: rep)
  have c8: "\<not> has_key (validation_details (fst (validate_dataframe rt df file_name self0))) ''data_types''"
    by (simp add: rep k basic_structure_new)
  have c9: "\<forall>k \<in> set [''missing_values'', ''duplicates'', ''outliers'', ''consistency'', ''column_names''].
          has_key (validation_details (fst (validate_dataframe rt df file_name self0))) k"
    by (simp add: rep k)
  show ?thesis
    using c1 t[of self] c3 c5 c6 c7 c8 c9 rc by blast
qed


theorem empty_text_column_aborts_type_check_witness:
  "\<not> is_valid (fst (validate_dataframe stand_in_runtime empty_text_table ''datos.csv'' new_validator))
   \<and> filter (\<lambda>f. ftype f = ''tipos_datos'')
         (errors (fst (validate_dataframe stand_in_runtime empty_text_table ''datos.csv'' new_validator)))
       = [data_types_error ZeroDivisionError]
   \<and> filter (\<lambda>f. ftype f = ''tipo_datos'')
         (report_suggestions (fst (validate_dataframe stand_in_runtime empty_text_table ''datos.csv'' new_validator))) = []
   \<and> has_key (validation_details (fst (validate_dataframe stand_in_runtime empty_text_table ''datos.csv'' new_validator)))
         ''column_names''"
proof -
  have m: "text_column ''notas'' [None, None, None] \<in> set (columns empty_text_table)"
    by code_simp
  have d: "cdtype (text_column ''notas'' [None, None, None]) = ObjectT"
    by code_simp
  have e: "dropna (cvalues (text_column ''notas'' [None, None, None])) = []"
    by code_simp
  have n: "distinct (map cname (columns empty_text_table))"
    by code_simp
  show ?thesis
    using empty_text_column_aborts_type_check[OF m d e n, of stand_in_runtime new_validator "''datos.csv''" new_validator]
    by simp
qed

subsection \<open>Numbers stored as text\<close>

text \<open>
  Claim C8 says that the suggestion is emitted when at least 80 percent of the
  sampled values parse as a number. In a column with the values 1, 2, 3, 4 and x exactly
  80 percent parse, and the check emits nothing: the comparison in the code is strict.
\<close>

theorem exactly_eighty_percent_gives_no_suggestion:
  "convertible_ratio stand_in_runtime (text_column ''precio'' [Some ''1'', Some ''2'', Some ''3'', Some ''4'', Some ''x'']) = 0.8
   \<and> text_column ''precio'' [Some ''1'', Some ''2'', Some ''3'', Some ''4'', Some ''x''] \<in> set (columns four_of_five_table)
   \<and> suggestions (validate_data_types stand_in_runtime four_of_five_table new_validator) = []"
  by code_simp

lemma data_types_loop_ok:
  assumes "\<forall>c\<in>set cs. cdtype c = ObjectT \<longrightarrow> dropna (cvalues c) \<noteq> []"
  shows "\<exists>ti ps. data_types_loop rt cs type_info problematic = Inr (ti, problematic @ ps)
      \<and> (\<forall>col r. NumericAsText col r \<in> set ps \<longleftrightarrow>
            (\<exists>c\<in>set cs. col = cname c \<and> cdtype c = ObjectT \<and> 0.8 < convertible_ratio rt c
                \<and> r = convertible_ratio rt c))"
  using assms
proof (induction cs arbitrary: type_info problematic)
  case Nil
  then show ?case by simp
next
  case (Cons a cs)
  from Cons.prems have a: "cdtype a = ObjectT \<longrightarrow> dropna (cvalues a) \<noteq> []"
    and rest: "\<forall>c\<in>set cs. cdtype c = ObjectT \<longrightarrow> dropna (cvalues c) \<noteq> []"
    by simp_all
  from date_problems_ok[OF a] obtain ps2 where
    ps2: "date_problems rt a = Inr ps2" and dates: "\<forall>p\<in>set ps2. \<exists>col r. p = DateAsText col r"
    by blast
  define ps1 where "ps1 = (if cdtype a = ObjectT \<and> dropna (cvalues a) \<noteq> [] \<and> 0.8 < convertible_ratio rt a
          then [NumericAsText (cname a) (convertible_ratio rt a)] else [])"
  have ps1: "numeric_problems rt a = Inr ps1"
    by (simp add: numeric_problems_eq ps1_def)
  from Cons.IH[OF rest, of "AList.update (cname a) (type_info_entry a) type_info" "problematic @ ps1 @ ps2"]
  obtain ti ps where
    loop: "data_types_loop rt cs (AList.update (cname a) (type_info_entry a) type_info) (problematic @ ps1 @ ps2)
             = Inr (ti, (problematic @ ps1 @ ps2) @ ps)"
    and mem: "\<forall>col r. NumericAsText col r \<in> set ps \<longleftrightarrow>
            (\<exists>c\<in>set cs. col = cname c \<and> cdtype c = ObjectT \<and> 0.8 < convertible_ratio rt c
                \<and> r = convertible_ratio rt c)"
    by blast
  have whole: "data_types_loop rt (a # cs) type_info problematic = Inr (ti, problematic @ (ps1 @ ps2 @ ps))"
    by (simp add: ps1 ps2 andthen_def loop)
  have no_dates: "NumericAsText col r \<notin> set ps2" for col r
    using dates by auto
  have first: "NumericAsText col r \<in> set ps1 \<longleftrightarrow>
      (col = cname a \<and> cdtype a = ObjectT \<and> 0.8 < convertible_ratio rt a \<and> r = convertible_ratio rt a)" for col r
    using a by (auto simp: ps1_def)
  have "\<forall>col r. NumericAsText col r \<in> set (ps1 @ ps2 @ ps) \<longleftrightarrow>
            (\<exists>c\<in>set (a # cs). col = cname c \<and> cdtype c = ObjectT \<and> 0.8 < convertible_ratio rt c
                \<and> r = convertible_ratio rt c)"
    using first no_dates mem by auto
  with whole show ?case by blast
qed

lemma numeric_suggestion_inj:
  "problem_suggestion rt p = problem_suggestion rt (NumericAsText name r)
     \<Longrightarrow> \<exists>r'. p = NumericAsText name r'"
  by (cases p) (auto simp: problem_suggestion_def mk_finding_def quoted_def)

text \<open>
  Claim C8, amended. Take a table with distinct column names in which every text
  column has a value, so that the type check does not abort. For every text column of
  it the check samples the first 100 values that are not missing, at most, and parses
  each after replacing every comma by a point and removing every space, ignoring white
  space around it. The column is recorded, and the suggestion that numbers are stored as
  text is emitted for it with the ratio, exactly when more than 80 percent of the sampled
  values parse. The column with the values 12,5 and 7,3 and 9,0 gets the suggestion, with
  the ratio 1.
\<close>

theorem numeric_as_text_suggestion:
  assumes "c \<in> set (columns df)" and "cdtype c = ObjectT"
    and "distinct (map cname (columns df))"
    and "\<forall>c'\<in>set (columns df). cdtype c' = ObjectT \<longrightarrow> dropna (cvalues c') \<noteq> []"
  shows "\<exists>type_info problematic.
      data_types_loop rt (columns df) [] [] = Inr (type_info, problematic)
      \<and> suggestions (validate_data_types rt df self)
          = suggestions self @ map (problem_suggestion rt) problematic
      \<and> (\<forall>r. NumericAsText (cname c) r \<in> set problematic \<longleftrightarrow>
            (0.8 < convertible_ratio rt c \<and> r = convertible_ratio rt c))
      \<and> (problem_suggestion rt (NumericAsText (cname c) (convertible_ratio rt c))
            \<in> set (map (problem_suggestion rt) problematic)
          \<longleftrightarrow> 0.8 < convertible_ratio rt c)"
proof -
  from data_types_loop_ok[OF assms(4), of rt "[]" "[]"] obtain ti ps where
    loop: "data_types_loop rt (columns df) [] [] = Inr (ti, ps)"
    and mem: "\<forall>col r. NumericAsText col r \<in> set ps \<longleftrightarrow>
            (\<exists>c'\<in>set (columns df). col = cname c' \<and> cdtype c' = ObjectT \<and> 0.8 < convertible_ratio rt c'
                \<and> r = convertible_ratio rt c')"
    by auto
  have same: "c' = c" if "c' \<in> set (columns df)" and "cname c = cname c'" for c'
    using assms(1,3) that by (auto simp: distinct_map dest: inj_onD)
  have rec: "\<forall>r. NumericAsText (cname c) r \<in> set ps \<longleftrightarrow>
            (0.8 < convertible_ratio rt c \<and> r = convertible_ratio rt c)"
    using mem assms(1,2) same by blast
  have sugg: "suggestions (validate_data_types rt df self) = suggestions self @ map (problem_suggestion rt) ps"
    by (simp add: validate_data_types_def loop)
  have emitted: "problem_suggestion rt (NumericAsText (cname c) (convertible_ratio rt c))
            \<in> set (map (problem_suggestion rt) ps) \<longleftrightarrow> 0.8 < convertible_ratio rt c"
  proof
    assume "problem_suggestion rt (NumericAsText (cname c) (convertible_ratio rt c))
            \<in> set (map (problem_suggestion rt) ps)"
    then obtain p where p: "p \<in> set ps"
      and eq: "problem_suggestion rt p = problem_suggestion rt (NumericAsText (cname c) (convertible_ratio rt c))"
      by auto
    from numeric_suggestion_inj[OF eq] obtain r' where "p = NumericAsText (cname c) r'" by blast
    with p rec show "0.8 < convertible_ratio rt c" by blast
  next
    assume "0.8 < convertible_ratio rt c"
    with rec have "NumericAsText (cname c) (convertible_ratio rt c) \<in> set ps" by blast
    then show "problem_suggestion rt (NumericAsText (cname c) (convertible_ratio rt c))
            \<in> set (map (problem_suggestion rt) ps)" by simp
  qed
  show ?thesis using loop rec sugg emitted by blast
qed

theorem numeric_as_text_suggestion_witness:
  "convertible_ratio stand_in_runtime (text_column ''precio'' [Some ''12,5'', None, Some ''7,3'', Some ''9,0'']) = 1
   \<and> suggestions (validate_data_types stand_in_runtime comma_table new_validator)
       = [problem_suggestion stand_in_runtime (NumericAsText ''precio'' 1)]"
proof -
  have m: "text_column ''precio'' [Some ''12,5'', None, Some ''7,3'', Some ''9,0''] \<in> set (columns comma_table)"
    by code_simp
  have d: "cdtype (text_column ''precio'' [Some ''12,5'', None, Some ''7,3'', Some ''9,0'']) = ObjectT"
    by code_simp
  have n: "distinct (map cname (columns comma_table))"
    by code_simp
  have a: "\<forall>c'\<in>set (columns comma_table). cdtype c' = ObjectT \<longrightarrow> dropna (cvalues c') \<noteq> []"
    by code_simp
  have r: "convertible_ratio stand_in_runtime (text_column ''precio'' [Some ''12,5'', None, Some ''7,3'', Some ''9,0'']) = 1"
    by code_simp
  have s: "suggestions (validate_data_types stand_in_runtime comma_table new_validator)
       = [problem_suggestion stand_in_runtime (NumericAsText ''precio'' 1)]"
    by code_simp
  show ?thesis
    using r s numeric_as_text_suggestion[OF m d n a, of stand_in_runtime new_validator]
    by blast
qed


end
